theory Spec2Isabelle
  imports Main "HOL-Library.Word" "HOL-Library.AList"
begin

unbundle bit_operations_syntax

section \<open>Values of the host language\<close>

text \<open>
  The handler of \<^verbatim>\<open>src/api/handler.ts\<close> runs on Node.js. The strings it is given (header
  values, environment variables, the strings of the payload) are modelled by
  \<^typ>\<open>string\<close>, one \<^typ>\<open>char\<close> per character of the range U+0000 to U+00FF (the range of
  HTTP header values, and a superset of the characters GitHub allows in logins and
  repository names). A \<^verbatim>\<open>Buffer\<close> is a list of bytes. Text that may hold any Unicode
  scalar value (the text decoded from a buffer, a string lowered in a locale) is a list of
  code points.
\<close>

type_synonym byte = "8 word"
type_synonym w32 = "32 word"
type_synonym codepoints = "nat list"

text \<open>Values a JavaScript \<^verbatim>\<open>throw\<close> or a rejected promise carries.\<close>

datatype error =
  Error string          \<comment> \<open>\<^verbatim>\<open>new Error(message)\<close>\<close>
| TypeError string      \<comment> \<open>reading a property of \<^verbatim>\<open>undefined\<close> or \<^verbatim>\<open>null\<close>, converting to a string\<close>
| RangeError string     \<comment> \<open>\<^verbatim>\<open>timingSafeEqual\<close> on buffers of different length\<close>
| TransportError string \<comment> \<open>a rejection of \<^verbatim>\<open>fetch\<close>, \<^verbatim>\<open>res.text()\<close> or the request stream\<close>

subsection \<open>UTF-8\<close>

text \<open>
  \<^verbatim>\<open>Buffer.from(s, 'utf8')\<close> and \<^verbatim>\<open>hmac.update(s)\<close> encode a string as UTF-8; a lone
  surrogate is encoded as U+FFFD.
\<close>

definition utf8_bytes :: "nat \<Rightarrow> byte list" where
  "utf8_bytes cp =
     (if cp < 0x80 then [word_of_nat cp]
      else if cp < 0x800 then
        [word_of_nat (0xC0 + cp div 0x40), word_of_nat (0x80 + cp mod 0x40)]
      else if 0xD800 \<le> cp \<and> cp < 0xE000 then [0xEF, 0xBF, 0xBD]
      else if cp < 0x10000 then
        [word_of_nat (0xE0 + cp div 0x1000), word_of_nat (0x80 + cp div 0x40 mod 0x40),
         word_of_nat (0x80 + cp mod 0x40)]
      else
        [word_of_nat (0xF0 + cp div 0x40000 mod 8), word_of_nat (0x80 + cp div 0x1000 mod 0x40),
         word_of_nat (0x80 + cp div 0x40 mod 0x40), word_of_nat (0x80 + cp mod 0x40)])"

definition utf8_encode :: "codepoints \<Rightarrow> byte list" where
  "utf8_encode t = concat (map utf8_bytes t)"

definition utf8_of_string :: "string \<Rightarrow> byte list" where
  "utf8_of_string s = utf8_encode (map of_char s)"

text \<open>The Unicode scalar values: the code points that are not surrogates.\<close>

definition scalar_value :: "nat \<Rightarrow> bool" where
  "scalar_value cp = (cp < 0x110000 \<and> (cp < 0xD800 \<or> 0xE000 \<le> cp))"

definition is_cont :: "nat \<Rightarrow> nat \<Rightarrow> byte \<Rightarrow> bool" where
  "is_cont lower upper b = (lower \<le> unat b \<and> unat b \<le> upper)"

text \<open>
  \<^verbatim>\<open>buf.toString('utf8')\<close>: every maximal ill-formed part of the input decodes to one
  U+FFFD, and decoding resumes at the byte that broke the sequence.
\<close>

fun toString_utf8 :: "byte list \<Rightarrow> codepoints" where
  "toString_utf8 [] = []"
| "toString_utf8 (b # bs) =
     (let x = unat b in
      if x < 0x80 then x # toString_utf8 bs
      else if 0xC2 \<le> x \<and> x \<le> 0xDF then
        (case bs of
           [] \<Rightarrow> [0xFFFD]
         | c # cs \<Rightarrow>
             if is_cont 0x80 0xBF c
             then (x mod 0x20 * 0x40 + unat c mod 0x40) # toString_utf8 cs
             else 0xFFFD # toString_utf8 bs)
      else if 0xE0 \<le> x \<and> x \<le> 0xEF then
        (case bs of
           [] \<Rightarrow> [0xFFFD]
         | c # cs \<Rightarrow>
             if is_cont (if x = 0xE0 then 0xA0 else 0x80) (if x = 0xED then 0x9F else 0xBF) c
             then (case cs of
                     [] \<Rightarrow> [0xFFFD]
                   | d # ds \<Rightarrow>
                       if is_cont 0x80 0xBF d
                       then (x mod 0x10 * 0x1000 + unat c mod 0x40 * 0x40 + unat d mod 0x40)
                              # toString_utf8 ds
                       else 0xFFFD # toString_utf8 cs)
             else 0xFFFD # toString_utf8 bs)
      else if 0xF0 \<le> x \<and> x \<le> 0xF4 then
        (case bs of
           [] \<Rightarrow> [0xFFFD]
         | c # cs \<Rightarrow>
             if is_cont (if x = 0xF0 then 0x90 else 0x80) (if x = 0xF4 then 0x8F else 0xBF) c
             then (case cs of
                     [] \<Rightarrow> [0xFFFD]
                   | d # ds \<Rightarrow>
                       if is_cont 0x80 0xBF d
                       then (case ds of
                               [] \<Rightarrow> [0xFFFD]
                             | e # es \<Rightarrow>
                                 if is_cont 0x80 0xBF e
                                 then (x mod 8 * 0x40000 + unat c mod 0x40 * 0x1000
                                         + unat d mod 0x40 * 0x40 + unat e mod 0x40)
                                        # toString_utf8 es
                                 else 0xFFFD # toString_utf8 ds)
                       else 0xFFFD # toString_utf8 cs)
             else 0xFFFD # toString_utf8 bs)
      else 0xFFFD # toString_utf8 bs)"

subsection \<open>HMAC-SHA256 of \<^verbatim>\<open>node:crypto\<close>\<close>

text \<open>
  \<^verbatim>\<open>createHmac('sha256', key).update(data).digest('hex')\<close> is library code outside the
  repository. It is modelled from its standards: SHA-256 as in FIPS 180-4, HMAC as in
  RFC 2104, the digest printed as lower-case hexadecimal.
\<close>

definition rotr :: "nat \<Rightarrow> w32 \<Rightarrow> w32" where
  "rotr n x = drop_bit n x OR push_bit (32 - n) x"

definition ch :: "w32 \<Rightarrow> w32 \<Rightarrow> w32 \<Rightarrow> w32" where
  "ch x y z = (x AND y) XOR (NOT x AND z)"

definition maj :: "w32 \<Rightarrow> w32 \<Rightarrow> w32 \<Rightarrow> w32" where
  "maj x y z = (x AND y) XOR (x AND z) XOR (y AND z)"

definition bsig0 :: "w32 \<Rightarrow> w32" where
  "bsig0 x = rotr 2 x XOR rotr 13 x XOR rotr 22 x"

definition bsig1 :: "w32 \<Rightarrow> w32" where
  "bsig1 x = rotr 6 x XOR rotr 11 x XOR rotr 25 x"

definition ssig0 :: "w32 \<Rightarrow> w32" where
  "ssig0 x = rotr 7 x XOR rotr 18 x XOR drop_bit 3 x"

definition ssig1 :: "w32 \<Rightarrow> w32" where
  "ssig1 x = rotr 17 x XOR rotr 19 x XOR drop_bit 10 x"

text \<open>
  The round constants: the first 32 bits of the fractional parts of the cube roots of the
  first 64 primes. \<open>floor_root e n\<close> is the integer part of the \<open>e\<close>-th root of \<open>n\<close>, found bit
  by bit from the top.
\<close>

definition is_prime :: "nat \<Rightarrow> bool" where
  "is_prime n = (2 \<le> n \<and> list_all (\<lambda>d. n mod d \<noteq> 0) [2..<n])"

definition first_primes :: "nat \<Rightarrow> nat list" where
  "first_primes k = take k (filter is_prime [2..<312])"

fun root_bits :: "nat \<Rightarrow> int \<Rightarrow> int \<Rightarrow> nat list \<Rightarrow> int" where
  "root_bits e n x [] = x"
| "root_bits e n x (b # bs) = root_bits e n (if (x + 2 ^ b) ^ e \<le> n then x + 2 ^ b else x) bs"

definition floor_root :: "nat \<Rightarrow> int \<Rightarrow> int" where
  "floor_root e n = root_bits e n 0 (rev [0..<40])"

definition sha256_k :: "w32 list" where
  "sha256_k = map (\<lambda>p. word_of_int (floor_root 3 (int p * 2 ^ 96))) (first_primes 64)"

type_synonym sha_state = "w32 \<times> w32 \<times> w32 \<times> w32 \<times> w32 \<times> w32 \<times> w32 \<times> w32"

definition sha256_init :: sha_state where
  "sha256_init = (0x6a09e667, 0xbb67ae85, 0x3c6ef372, 0xa54ff53a,
                  0x510e527f, 0x9b05688c, 0x1f83d9ab, 0x5be0cd19)"

fun be32 :: "byte list \<Rightarrow> w32 list" where
  "be32 (a # b # c # d # bs) =
     (push_bit 24 (ucast a) OR push_bit 16 (ucast b) OR push_bit 8 (ucast c) OR ucast d) # be32 bs"
| "be32 _ = []"

text \<open>The message schedule, over a window of the sixteen latest words.\<close>

fun schedule :: "nat \<Rightarrow> w32 list \<Rightarrow> w32 list" where
  "schedule 0 win = []"
| "schedule (Suc n) win =
     (let w = ssig1 (win ! 14) + win ! 9 + ssig0 (win ! 1) + win ! 0
      in w # schedule n (tl win @ [w]))"

fun round_step :: "sha_state \<Rightarrow> w32 \<times> w32 \<Rightarrow> sha_state" where
  "round_step (a, b, c, d, e, f, g, h) (k, w) =
     (let t1 = h + bsig1 e + ch e f g + k + w;
          t2 = bsig0 a + maj a b c
      in (t1 + t2, a, b, c, d + t1, e, f, g))"

fun add_state :: "sha_state \<Rightarrow> sha_state \<Rightarrow> sha_state" where
  "add_state (a, b, c, d, e, f, g, h) (a', b', c', d', e', f', g', h') =
     (a + a', b + b', c + c', d + d', e + e', f + f', g + g', h + h')"

definition compress :: "sha_state \<Rightarrow> byte list \<Rightarrow> sha_state" where
  "compress st block =
     (let w16 = be32 block; ws = w16 @ schedule 48 w16
      in add_state st (foldl round_step st (zip sha256_k ws)))"

definition sha_pad :: "byte list \<Rightarrow> byte list" where
  "sha_pad m =
     (let n = length m
      in m @ [0x80] @ replicate ((119 - n mod 64) mod 64) 0
           @ map (\<lambda>i. ucast (drop_bit (8 * i) (word_of_nat (8 * n) :: 64 word)))
               [7, 6, 5, 4, 3, 2, 1, 0])"

fun sha_blocks :: "nat \<Rightarrow> byte list \<Rightarrow> byte list list" where
  "sha_blocks 0 bs = []"
| "sha_blocks (Suc n) bs = take 64 bs # sha_blocks n (drop 64 bs)"

fun w32_bytes :: "w32 \<Rightarrow> byte list" where
  "w32_bytes x = [ucast (drop_bit 24 x), ucast (drop_bit 16 x), ucast (drop_bit 8 x), ucast x]"

fun state_bytes :: "sha_state \<Rightarrow> byte list" where
  "state_bytes (a, b, c, d, e, f, g, h) = concat (map w32_bytes [a, b, c, d, e, f, g, h])"

definition sha256 :: "byte list \<Rightarrow> byte list" where
  "sha256 m =
     (let p = sha_pad m
      in state_bytes (foldl compress sha256_init (sha_blocks (length p div 64) p)))"

definition hmac_key :: "byte list \<Rightarrow> byte list" where
  "hmac_key key =
     (let k = (if length key > 64 then sha256 key else key)
      in k @ replicate (64 - length k) 0)"

definition hmac_sha256 :: "byte list \<Rightarrow> byte list \<Rightarrow> byte list" where
  "hmac_sha256 key msg =
     (let k = hmac_key key
      in sha256 (map (\<lambda>b. b XOR 0x5c) k @ sha256 (map (\<lambda>b. b XOR 0x36) k @ msg)))"

definition hex_digit :: "nat \<Rightarrow> char" where
  "hex_digit n = ''0123456789abcdef'' ! (n mod 16)"

definition hex_of_bytes :: "byte list \<Rightarrow> string" where
  "hex_of_bytes bs = concat (map (\<lambda>b. [hex_digit (unat b div 16), hex_digit (unat b)]) bs)"

text \<open>
  \<^verbatim>\<open>createHmac('sha256', secret).update(rawBody).digest('hex')\<close>: the key and the data
  are strings, both encoded as UTF-8.
\<close>

definition createHmac_sha256_hex :: "string \<Rightarrow> codepoints \<Rightarrow> string" where
  "createHmac_sha256_hex secret data =
     hex_of_bytes (hmac_sha256 (utf8_of_string secret) (utf8_encode data))"

text \<open>
  \<^verbatim>\<open>timingSafeEqual(a, b)\<close> throws when the two buffers differ in length and compares
  them otherwise. Its running time is not modelled.
\<close>

definition timingSafeEqual :: "byte list \<Rightarrow> byte list \<Rightarrow> error + bool" where
  "timingSafeEqual a b =
     (if length a \<noteq> length b
      then Inl (RangeError ''Input buffers must have the same byte length'')
      else Inr (a = b))"

section \<open>The request and the process\<close>

text \<open>
  The default locale of the runtime, as far as lower-casing goes: Turkish, Azeri and
  Lithuanian have casing rules of their own, every other language follows the common
  rules.
\<close>

datatype host_locale = Turkish | Azeri | Lithuanian | Other_language

text \<open>
  The process: the variables of \<^verbatim>\<open>process.env\<close> the handler reads, each a string or
  \<^verbatim>\<open>undefined\<close>, and the default locale of the runtime.
\<close>

record env =
  GITHUB_WEBHOOK_SECRET :: "string option"
  HABITICA_USER_ID :: "string option"
  HABITICA_API_TOKEN :: "string option"
  default_locale :: host_locale

text \<open>\<^verbatim>\<open>!v\<close> on a value that is a string or \<^verbatim>\<open>undefined\<close>.\<close>

fun falsy :: "string option \<Rightarrow> bool" where
  "falsy None = True"
| "falsy (Some s) = (s = [])"

text \<open>
  The parsed body \<^verbatim>\<open>request.body\<close> is any JSON value, or \<^verbatim>\<open>undefined\<close>. A number is an integer
  from \<open>-2\<^sup>5\<^sup>3\<close> up to \<open>2\<^sup>5\<^sup>3 - 1\<close>, all of which JavaScript represents exactly: \<open>JNum n\<close> is the
  number \<open>sint n\<close>. A string holds characters up to U+00FF, one \<open>char\<close> each. An object is
  the list of its own properties.
\<close>

datatype json =
  JUndefined
| JNull
| JBool bool
| JNum "54 word"
| JStr string
| JArr "json list"
| JObj "(string \<times> json) list"

text \<open>A header of Node's \<^verbatim>\<open>IncomingHttpHeaders\<close>: a string or an array of strings.\<close>

datatype header_value = HStr string | HArr "string list"

text \<open>A chunk of the request stream: a string or a \<^verbatim>\<open>Buffer\<close>.\<close>

datatype chunk = StringChunk string | BufferChunk "byte list"

record VercelRequest =
  http_method :: string
  headers :: "string \<Rightarrow> header_value option"
  chunks :: "chunk list"           \<comment> \<open>what iterating the request stream yields\<close>
  stream_error :: "error option"   \<comment> \<open>the error the stream ends with, if any\<close>
  body :: json

section \<open>Strings built by template literals\<close>

fun dec_nat :: "nat \<Rightarrow> string" where
  "dec_nat n =
     (if n < 10 then [''0123456789'' ! n]
      else dec_nat (n div 10) @ [''0123456789'' ! (n mod 10)])"

declare dec_nat.simps [simp del]

definition dec_int :: "int \<Rightarrow> string" where
  "dec_int i = (if i < 0 then CHR ''-'' # dec_nat (nat (- i)) else dec_nat (nat i))"

fun join_comma :: "string list \<Rightarrow> string" where
  "join_comma [] = []"
| "join_comma [x] = x"
| "join_comma (x # y # ys) = x @ '','' @ join_comma (y # ys)"

text \<open>
  \<^verbatim>\<open>`${v}`\<close>: the string a template literal inserts for a value, or the error the
  conversion throws. An object parsed from JSON converts through the \<^verbatim>\<open>toString\<close> it
  inherits, unless it has a property of that name of its own: the value of such a
  property is never a function, and the conversion throws. An array joins the
  conversions of its elements with commas, \<^verbatim>\<open>null\<close> and \<^verbatim>\<open>undefined\<close> elements counting as
  the empty string; it throws as soon as the conversion of an element does.
\<close>

fun template :: "json \<Rightarrow> error + string"
  and join_elements :: "json list \<Rightarrow> error + string" where
  "template JUndefined = Inr ''undefined''"
| "template JNull = Inr ''null''"
| "template (JBool b) = Inr (if b then ''true'' else ''false'')"
| "template (JNum n) = Inr (dec_int (sint n))"
| "template (JStr s) = Inr s"
| "template (JArr xs) = join_elements xs"
| "template (JObj kvs) =
     (if map_of kvs ''toString'' = None then Inr ''[object Object]''
      else Inl (TypeError ''Cannot convert object to primitive value''))"
| "join_elements [] = Inr []"
| "join_elements (x # xs) =
     (case (if x = JUndefined \<or> x = JNull then Inr [] else template x) of
        Inl err \<Rightarrow> Inl err
      | Inr s \<Rightarrow>
          if xs = [] then Inr s
          else (case join_elements xs of
                  Inl err \<Rightarrow> Inl err
                | Inr r \<Rightarrow> Inr (s @ '','' @ r)))"

text \<open>\<^verbatim>\<open>`${request.headers[name]}`\<close>.\<close>

fun template_header :: "header_value option \<Rightarrow> string" where
  "template_header None = ''undefined''"
| "template_header (Some (HStr s)) = s"
| "template_header (Some (HArr xs)) = join_comma xs"

text \<open>
  \<^verbatim>\<open>v.k\<close>: reading a property throws on \<^verbatim>\<open>undefined\<close> and \<^verbatim>\<open>null\<close>. An object yields the
  value of the property, or \<^verbatim>\<open>undefined\<close> when it has none. None of the names the handler
  reads is a property of a string, a number, a boolean or an array.
\<close>

fun get_prop :: "json \<Rightarrow> string \<Rightarrow> error + json" where
  "get_prop JUndefined k =
     Inl (TypeError (''Cannot read properties of undefined (reading '' @ [CHR 0x27] @ k
            @ [CHR 0x27] @ '')''))"
| "get_prop JNull k =
     Inl (TypeError (''Cannot read properties of null (reading '' @ [CHR 0x27] @ k
            @ [CHR 0x27] @ '')''))"
| "get_prop (JObj kvs) k = Inr (case map_of kvs k of None \<Rightarrow> JUndefined | Some v \<Rightarrow> v)"
| "get_prop _ k = Inr JUndefined"

text \<open>\<^verbatim>\<open>v.k1.k2...\<close>, read from left to right.\<close>

fun get_path :: "json \<Rightarrow> string list \<Rightarrow> error + json" where
  "get_path v [] = Inr v"
| "get_path v (k # ks) = (case get_prop v k of Inl e \<Rightarrow> Inl e | Inr v' \<Rightarrow> get_path v' ks)"

text \<open>
  \<^verbatim>\<open>${v.k1.k2...}\<close> inside a template literal: the properties are read, then the value is
  converted to a string, before the rest of the literal is evaluated.
\<close>

definition substitution :: "json \<Rightarrow> string list \<Rightarrow> error + string" where
  "substitution v ks = (case get_path v ks of Inl err \<Rightarrow> Inl err | Inr x \<Rightarrow> template x)"

text \<open>
  \<^verbatim>\<open>a === b\<close> on two values read from different places of a parsed body: primitives are
  compared by value, and two objects or arrays are different references.
\<close>

fun strict_eq :: "json \<Rightarrow> json \<Rightarrow> bool" where
  "strict_eq JUndefined JUndefined = True"
| "strict_eq JNull JNull = True"
| "strict_eq (JBool a) (JBool b) = (a = b)"
| "strict_eq (JNum a) (JNum b) = (a = b)"
| "strict_eq (JStr a) (JStr b) = (a = b)"
| "strict_eq _ _ = False"

text \<open>
  \<^verbatim>\<open>s.toLowerCase()\<close>, character by character: of the characters up to U+00FF, the letters
  A to Z, U+00C0 to U+00D6 and U+00D8 to U+00DE move up by 32.
\<close>

definition toLowerCase_char :: "char \<Rightarrow> char" where
  "toLowerCase_char c =
     (let n = (of_char c :: nat)
      in if (0x41 \<le> n \<and> n \<le> 0x5A) \<or> (0xC0 \<le> n \<and> n \<le> 0xDE \<and> n \<noteq> 0xD7)
         then char_of (n + 32) else c)"

text \<open>
  \<^verbatim>\<open>s.toLocaleLowerCase()\<close> follows the default locale of the host. In Turkish and Azeri the
  letter I becomes the dotless U+0131. In Lithuanian U+00CC and U+00CD become an i
  followed by a dot above (U+0307) and the accent (U+0300, U+0301). Everything else is as
  in \<^verbatim>\<open>toLowerCase\<close>. The result can hold characters above U+00FF and is a list of code
  points.
\<close>

definition toLocaleLowerCase_char :: "host_locale \<Rightarrow> char \<Rightarrow> codepoints" where
  "toLocaleLowerCase_char loc c =
     (if (loc = Turkish \<or> loc = Azeri) \<and> c = CHR ''I'' then [0x131]
      else if loc = Lithuanian \<and> c = CHR 0xCC then [0x69, 0x307, 0x300]
      else if loc = Lithuanian \<and> c = CHR 0xCD then [0x69, 0x307, 0x301]
      else [of_char (toLowerCase_char c)])"

definition toLocaleLowerCase :: "host_locale \<Rightarrow> string \<Rightarrow> codepoints" where
  "toLocaleLowerCase loc s = concat (map (toLocaleLowerCase_char loc) s)"

section \<open>The tracker and the outside world\<close>

text \<open>
  A string that passes between the handler and the outside (a URL, a field of a task, a
  console line, the text of a response) is kept as the bytes that carry it, one \<open>char\<close> per
  byte. Text is carried in UTF-8, so a string of ASCII characters is carried as it is.
\<close>

definition utf8_text :: "codepoints \<Rightarrow> string" where
  "utf8_text t = map (\<lambda>b. char_of (unat b)) (utf8_encode t)"

definition utf8_latin1 :: "string \<Rightarrow> string" where
  "utf8_latin1 s = utf8_text (map of_char s)"

text \<open>
  The priorities of a task. The request body carries their numbers (0.1, 1, 1.5 and 2);
  the model keeps the names.
\<close>

datatype HabiticaTaskPriority = Trivial | Easy | Medium | Hard

text \<open>
  The fields \<^verbatim>\<open>alias\<close>, \<^verbatim>\<open>type\<close>, \<^verbatim>\<open>text\<close>, \<^verbatim>\<open>notes\<close> and \<^verbatim>\<open>priority\<close> of a task. An optional
  field that is absent is \<open>None\<close>.
\<close>

record HabiticaAddTaskProps =
  task_alias :: string
  task_type :: string
  task_text :: string
  task_notes :: "string option"
  priority :: "HabiticaTaskPriority option"

record HabiticaApiCallProps =
  call_method :: string
  path :: string
  payload :: "HabiticaAddTaskProps option"
  call_headers :: "(string \<times> string) list"

text \<open>
  A call of \<^verbatim>\<open>fetch\<close>. The body is the object that \<^verbatim>\<open>JSON.stringify\<close> serialises; the
  serialisation itself is not modelled.
\<close>

record fetch_request =
  url :: string
  fetch_method :: string
  fetch_headers :: "(string \<times> string) list"
  fetch_body :: "HabiticaAddTaskProps option"

record fetch_response =
  status :: nat
  res_url :: string
  res_text :: "error + string"   \<comment> \<open>what \<^verbatim>\<open>await res.text()\<close> gives\<close>

text \<open>
  The network and the remote tracker: the outcome of a \<^verbatim>\<open>fetch\<close>, given the requests sent
  before it (oldest first). \<open>Inl\<close> is a rejected promise.
\<close>

type_synonym network = "fetch_request list \<Rightarrow> fetch_request \<Rightarrow> error + fetch_response"

datatype console_line = Log string | ErrorLog string

text \<open>
  What the handler changes: the requests it has sent, the lines it has printed, and the
  status and body sent through the \<^verbatim>\<open>VercelResponse\<close>, if any.
\<close>

record world =
  fetched :: "fetch_request list"
  console :: "console_line list"
  sent :: "(nat \<times> string) option"

definition console_log :: "string \<Rightarrow> world \<Rightarrow> world" where
  "console_log s w = w\<lparr>console := console w @ [Log s]\<rparr>"

definition console_error :: "string \<Rightarrow> world \<Rightarrow> world" where
  "console_error s w = w\<lparr>console := console w @ [ErrorLog s]\<rparr>"

section \<open>\<^verbatim>\<open>class HabiticaAPI\<close>\<close>

definition baseUrl :: string where
  "baseUrl = ''https://habitica.com/api/v3/''"

text \<open>The request \<^verbatim>\<open>call\<close> hands to \<^verbatim>\<open>fetch\<close>, once both credentials are known.\<close>

definition fetch_request_of :: "string \<Rightarrow> string \<Rightarrow> HabiticaApiCallProps \<Rightarrow> fetch_request" where
  "fetch_request_of userId apiToken props =
     (let client = ''test-github-to-habitica'';
          hs = AList.update ''x-client'' (userId @ ''-'' @ client)
                 (AList.update ''x-api-key'' apiToken
                   (AList.update ''x-api-user'' userId (call_headers props)))
      in \<lparr>url = baseUrl @ path props,
          fetch_method = call_method props,
          fetch_headers =
            (case payload props of
               None \<Rightarrow> hs
             | Some _ \<Rightarrow> AList.update ''content-type'' ''application/json'' hs),
          fetch_body = payload props\<rparr>)"

definition call :: "network \<Rightarrow> env \<Rightarrow> HabiticaApiCallProps \<Rightarrow> world
    \<Rightarrow> (error + fetch_response) \<times> world" where
  "call net e props w =
     (case (HABITICA_USER_ID e, HABITICA_API_TOKEN e) of
        (Some userId, Some apiToken) \<Rightarrow>
          if userId = [] \<or> apiToken = [] then (Inl (Error ''Missing Habitica credentials''), w)
          else
            let req = fetch_request_of userId apiToken props;
                w1 = w\<lparr>fetched := fetched w @ [req]\<rparr>
            in (case net (fetched w) req of
                  Inl err \<Rightarrow> (Inl err, w1)
                | Inr res \<Rightarrow>
                    (case res_text res of
                       Inl err \<Rightarrow> (Inl err, w1)
                     | Inr t \<Rightarrow>
                         (Inr res,
                          console_log
                            ([CHR 0x0A] @ dec_nat (status res) @ '' '' @ call_method props @ '' ''
                               @ baseUrl @ path props @ [CHR 0x0A] @ t @ [CHR 0x0A] @ ''        '')
                            w1)))
      | _ \<Rightarrow> (Inl (Error ''Missing Habitica credentials''), w))"

definition createTask :: "network \<Rightarrow> env \<Rightarrow> HabiticaAddTaskProps \<Rightarrow> world
    \<Rightarrow> (error + fetch_response) \<times> world" where
  "createTask net e props w =
     call net e
       \<lparr>call_method = ''POST'',
        path = ''tasks/user'',
        payload = Some (props\<lparr>priority :=
                     Some (case priority props of None \<Rightarrow> Easy | Some p \<Rightarrow> p)\<rparr>),
        call_headers = []\<rparr> w"

definition scoreTask :: "network \<Rightarrow> env \<Rightarrow> string \<Rightarrow> string \<Rightarrow> world
    \<Rightarrow> (error + fetch_response) \<times> world" where
  "scoreTask net e taskId direction w =
     call net e
       \<lparr>call_method = ''POST'',
        path = ''tasks/'' @ taskId @ ''/score/'' @ direction,
        payload = None,
        call_headers = []\<rparr> w"

definition hasTask :: "network \<Rightarrow> env \<Rightarrow> string \<Rightarrow> world \<Rightarrow> (error + bool) \<times> world" where
  "hasTask net e a w =
     (case call net e
             \<lparr>call_method = ''GET'', path = ''tasks/'' @ a, payload = None, call_headers = []\<rparr> w of
        (Inl err, w1) \<Rightarrow> (Inl err, w1)
      | (Inr response, w1) \<Rightarrow>
          if status response = 404 then (Inr False, w1)
          else if status response = 200 then (Inr True, w1)
          else (Inl (Error (''Unexpected response from: '' @ res_url response)), w1))"

section \<open>\<^verbatim>\<open>class Habitica\<close>\<close>

definition addTodo :: "network \<Rightarrow> env \<Rightarrow> string \<Rightarrow> string \<Rightarrow> string option
    \<Rightarrow> HabiticaTaskPriority option \<Rightarrow> world \<Rightarrow> (error + fetch_response option) \<times> world" where
  "addTodo net e a txt nts prio w =
     (case hasTask net e a w of
        (Inl err, w1) \<Rightarrow> (Inl err, w1)
      | (Inr taskExists, w1) \<Rightarrow>
          if taskExists then (Inr None, console_log (''Task already exists: '' @ a) w1)
          else
            (case createTask net e
                    \<lparr>task_alias = a, task_type = ''todo'', task_text = txt, task_notes = nts,
                     priority = prio\<rparr>
                    (console_log (''Creating task: '' @ a) w1) of
               (Inl err, w2) \<Rightarrow> (Inl err, w2)
             | (Inr res, w2) \<Rightarrow> (Inr (Some res), w2)))"

definition completeTodo :: "network \<Rightarrow> env \<Rightarrow> string \<Rightarrow> world
    \<Rightarrow> (error + fetch_response option) \<times> world" where
  "completeTodo net e a w =
     (case hasTask net e a w of
        (Inl err, w1) \<Rightarrow> (Inl err, w1)
      | (Inr taskExists, w1) \<Rightarrow>
          if \<not> taskExists then (Inr None, console_log (''Task does not exist: '' @ a) w1)
          else
            (case scoreTask net e a ''up'' (console_log (''Completing task: '' @ a) w1) of
               (Inl err, w2) \<Rightarrow> (Inl err, w2)
             | (Inr res, w2) \<Rightarrow> (Inr (Some res), w2)))"

section \<open>Signature verification\<close>

text \<open>
  \<^verbatim>\<open>buffer(readable)\<close>: the chunks of the stream, strings encoded as UTF-8, concatenated.
\<close>

definition buffer :: "VercelRequest \<Rightarrow> error + byte list" where
  "buffer readable =
     (case stream_error readable of
        Some err \<Rightarrow> Inl err
      | None \<Rightarrow>
          Inr (concat (map (\<lambda>c. case c of StringChunk s \<Rightarrow> utf8_of_string s | BufferChunk b \<Rightarrow> b)
                         (chunks readable))))"

definition verifyRequestSignature :: "env \<Rightarrow> VercelRequest \<Rightarrow> error + unit" where
  "verifyRequestSignature e request =
     (case GITHUB_WEBHOOK_SECRET e of
        None \<Rightarrow> Inl (Error ''Missing GITHUB_WEBHOOK_SECRET'')
      | Some secret \<Rightarrow>
          if secret = [] then Inl (Error ''Missing GITHUB_WEBHOOK_SECRET'')
          else
            let sig = utf8_of_string (template_header (headers request ''x-hub-signature-256''))
            in (case (if http_method request = ''POST''
                      then (case buffer request of
                              Inl err \<Rightarrow> Inl err
                            | Inr b \<Rightarrow> Inr (toString_utf8 b))
                      else Inr []) of
                  Inl err \<Rightarrow> Inl err
                | Inr rawBody \<Rightarrow>
                    let digest = utf8_of_string (''sha256='' @ createHmac_sha256_hex secret rawBody)
                    in if length sig \<noteq> length digest
                       then Inl (Error ''Invalid webhook signature'')
                       else (case timingSafeEqual sig digest of
                               Inl err \<Rightarrow> Inl err
                             | Inr same \<Rightarrow>
                                 if \<not> same then Inl (Error ''Invalid webhook signature'')
                                 else Inr ())))"

section \<open>The event mapper\<close>

text \<open>The four constants of \<^verbatim>\<open>updateHabiticaTodoFromGitHub\<close>, as functions of the payload.\<close>

definition taskPriority :: "json \<Rightarrow> error + HabiticaTaskPriority" where
  "taskPriority p =
     (case get_path p [''pull_request'', ''user'', ''login''] of
        Inl err \<Rightarrow> Inl err
      | Inr author \<Rightarrow>
          (case get_path p [''repository'', ''owner'', ''login''] of
             Inl err \<Rightarrow> Inl err
           | Inr owner \<Rightarrow> Inr (if strict_eq author owner then Medium else Easy)))"

text \<open>The alias, from the strings that the three substitutions give.\<close>

definition alias_of :: "host_locale \<Rightarrow> string \<Rightarrow> string \<Rightarrow> string \<Rightarrow> codepoints" where
  "alias_of loc owner name number =
     toLocaleLowerCase loc (''github__'' @ owner @ ''-'' @ name @ ''-'' @ number)"

definition taskAlias :: "host_locale \<Rightarrow> json \<Rightarrow> error + codepoints" where
  "taskAlias loc p =
     (case substitution p [''repository'', ''owner'', ''login''] of
        Inl err \<Rightarrow> Inl err
      | Inr owner \<Rightarrow>
          (case substitution p [''repository'', ''name''] of
             Inl err \<Rightarrow> Inl err
           | Inr name \<Rightarrow>
               (case substitution p [''number''] of
                  Inl err \<Rightarrow> Inl err
                | Inr number \<Rightarrow> Inr (alias_of loc owner name number))))"

definition taskText :: "json \<Rightarrow> error + string" where
  "taskText p =
     (case substitution p [''repository'', ''full_name''] of
        Inl err \<Rightarrow> Inl err
      | Inr full_name \<Rightarrow>
          (case substitution p [''number''] of
             Inl err \<Rightarrow> Inl err
           | Inr number \<Rightarrow> Inr (full_name @ ''#'' @ number)))"

definition taskNote :: "json \<Rightarrow> error + string" where
  "taskNote p =
     (case substitution p [''pull_request'', ''title''] of
        Inl err \<Rightarrow> Inl err
      | Inr title \<Rightarrow>
          (case substitution p [''pull_request'', ''html_url''] of
             Inl err \<Rightarrow> Inl err
           | Inr html_url \<Rightarrow> Inr (title @ [CHR 0x0A] @ html_url)))"

definition updateHabiticaTodoFromGitHub :: "network \<Rightarrow> env \<Rightarrow> VercelRequest \<Rightarrow> world
    \<Rightarrow> (error + unit) \<times> world" where
  "updateHabiticaTodoFromGitHub net e request w =
     (let p = body request
      in if headers request ''x-github-event'' \<noteq> Some (HStr ''pull_request'')
         then (Inr (), console_error ''Not a pull request event'' w)
         else
           (case taskPriority p of
              Inl err \<Rightarrow> (Inl err, w)
            | Inr prio \<Rightarrow>
           (case taskAlias (default_locale e) p of
              Inl err \<Rightarrow> (Inl err, w)
            | Inr lowered \<Rightarrow>
           (case taskText p of
              Inl err \<Rightarrow> (Inl err, w)
            | Inr txt \<Rightarrow>
           (case taskNote p of
              Inl err \<Rightarrow> (Inl err, w)
            | Inr note \<Rightarrow>
           (case get_prop p ''action'' of
              Inl err \<Rightarrow> (Inl err, w)
            | Inr action \<Rightarrow>
                let a = utf8_text lowered
                in if strict_eq action (JStr ''opened'') then
                  (case addTodo net e a (utf8_latin1 txt) (Some (utf8_latin1 note)) (Some prio)
                          (console_log (''pull request.opened: '' @ a) w) of
                     (Inl err, w1) \<Rightarrow> (Inl err, w1)
                   | (Inr _, w1) \<Rightarrow> (Inr (), w1))
                else if strict_eq action (JStr ''closed'') then
                  (case completeTodo net e a (console_log (''pull request.closed: '' @ a) w) of
                     (Inl err, w1) \<Rightarrow> (Inl err, w1)
                   | (Inr _, w1) \<Rightarrow> (Inr (), w1))
                else (Inr (), w)))))))"

section \<open>The entry point\<close>

text \<open>
  The result is how the promise of \<^verbatim>\<open>handler\<close> settles: \<open>Inr ()\<close> when it resolves,
  \<open>Inl err\<close> when it rejects with \<open>err\<close>.
\<close>

definition handler :: "network \<Rightarrow> env \<Rightarrow> VercelRequest \<Rightarrow> world \<Rightarrow> (error + unit) \<times> world" where
  "handler net e request w =
     (case verifyRequestSignature e request of
        Inl err \<Rightarrow> (Inr (), w\<lparr>sent := Some (403, [])\<rparr>)
      | Inr _ \<Rightarrow>
          (case updateHabiticaTodoFromGitHub net e request w of
             (Inl err, w1) \<Rightarrow> (Inl err, w1)
           | (Inr _, w1) \<Rightarrow> (Inr (), w1\<lparr>sent := Some (200, [])\<rparr>)))"

section \<open>A tracker to run the handler against\<close>

text \<open>
  A tracker that holds the tasks created by the requests sent so far: a lookup answers
  200 for a known alias and 404 otherwise, a creation answers 201, a score answers 200.
\<close>

definition created_aliases :: "fetch_request list \<Rightarrow> string list" where
  "created_aliases hs =
     concat (map (\<lambda>r. if fetch_method r = ''POST'' \<and> url r = baseUrl @ ''tasks/user''
                       then (case fetch_body r of None \<Rightarrow> [] | Some t \<Rightarrow> [task_alias t])
                       else []) hs)"

definition tracker :: network where
  "tracker hs r =
     Inr \<lparr>status =
            (if fetch_method r = ''GET''
             then (if \<exists>a \<in> set (created_aliases hs). url r = baseUrl @ ''tasks/'' @ a
                   then 200 else 404)
             else if url r = baseUrl @ ''tasks/user'' then 201 else 200),
          res_url = url r,
          res_text = Inr ''{}''\<rparr>"

text \<open>A tracker that answers every request with the same status.\<close>

definition answering :: "nat \<Rightarrow> network" where
  "answering code hs r = Inr \<lparr>status = code, res_url = url r, res_text = Inr []\<rparr>"

text \<open>What a request asks of the tracker: its method, its URL and its body.\<close>

definition request_summary :: "fetch_request \<Rightarrow> string \<times> string \<times> HabiticaAddTaskProps option" where
  "request_summary r = (fetch_method r, url r, fetch_body r)"

section \<open>Letter casing\<close>

text \<open>
  Two strings differ only in letter casing when they have the same length and, position
  by position, hold the same character or the two cases of one letter (the upper case
  letters up to U+00FF are A to Z, U+00C0 to U+00D6 and U+00D8 to U+00DE; the lower case
  form of each is 32 above).
\<close>

definition upper_case_letter :: "char \<Rightarrow> bool" where
  "upper_case_letter c =
     (let n = (of_char c :: nat)
      in (0x41 \<le> n \<and> n \<le> 0x5A) \<or> (0xC0 \<le> n \<and> n \<le> 0xD6) \<or> (0xD8 \<le> n \<and> n \<le> 0xDE))"

definition same_letter :: "char \<Rightarrow> char \<Rightarrow> bool" where
  "same_letter c d =
     (c = d
      \<or> (upper_case_letter c \<and> (of_char d :: nat) = of_char c + 32)
      \<or> (upper_case_letter d \<and> (of_char c :: nat) = of_char d + 32))"

definition differ_only_in_case :: "string \<Rightarrow> string \<Rightarrow> bool" where
  "differ_only_in_case s t = list_all2 same_letter s t"

section \<open>A delivery to run the handler on\<close>

definition example_env :: env where
  "example_env =
     \<lparr>GITHUB_WEBHOOK_SECRET = Some ''s3cret'',
      HABITICA_USER_ID = Some ''user-1'',
      HABITICA_API_TOKEN = Some ''token-1'',
      default_locale = Other_language\<rparr>"

text \<open>The body of a delivery, as the text GitHub sends and as the object parsed from it.\<close>

definition example_text :: \<open>string \<Rightarrow> string\<close> where
  \<open>example_text action =
     ''{"action":"'' @ action @ ''","number":42,''
     @ ''"pull_request":{"html_url":"https://github.com/Acme/Widgets/pull/42",''
     @ ''"title":"Fix","user":{"login":"Acme"}},''
     @ ''"repository":{"name":"Widgets","full_name":"Acme/Widgets",''
     @ ''"owner":{"login":"Acme"}}}''\<close>

definition example_payload :: "string \<Rightarrow> json" where
  "example_payload action =
     JObj [(''action'', JStr action),
           (''number'', JNum 42),
           (''pull_request'',
              JObj [(''html_url'', JStr ''https://github.com/Acme/Widgets/pull/42''),
                    (''title'', JStr ''Fix''),
                    (''user'', JObj [(''login'', JStr ''Acme'')])]),
           (''repository'',
              JObj [(''name'', JStr ''Widgets''),
                    (''full_name'', JStr ''Acme/Widgets''),
                    (''owner'', JObj [(''login'', JStr ''Acme'')])])]"

text \<open>The same payload with another title.\<close>

definition example_payload_titled :: "json \<Rightarrow> string \<Rightarrow> json" where
  "example_payload_titled title action =
     JObj [(''action'', JStr action),
           (''number'', JNum 42),
           (''pull_request'',
              JObj [(''html_url'', JStr ''https://github.com/Acme/Widgets/pull/42''),
                    (''title'', title),
                    (''user'', JObj [(''login'', JStr ''Acme'')])]),
           (''repository'',
              JObj [(''name'', JStr ''Widgets''),
                    (''full_name'', JStr ''Acme/Widgets''),
                    (''owner'', JObj [(''login'', JStr ''Acme'')])])]"


text \<open>The signature GitHub attaches: the HMAC of the bytes of the body.\<close>

definition github_signature :: "string \<Rightarrow> byte list \<Rightarrow> string" where
  "github_signature secret raw =
     ''sha256='' @ hex_of_bytes (hmac_sha256 (utf8_of_string secret) raw)"

definition example_request :: "string \<Rightarrow> string \<Rightarrow> VercelRequest" where
  "example_request event action =
     \<lparr>http_method = ''POST'',
      headers =
        [''x-github-event'' \<mapsto> HStr event,
         ''x-hub-signature-256'' \<mapsto>
           HStr (github_signature ''s3cret'' (utf8_of_string (example_text action)))],
      chunks = [BufferChunk (utf8_of_string (example_text action))],
      stream_error = None,
      body = example_payload action\<rparr>"

definition example_world :: world where
  "example_world = \<lparr>fetched = [], console = [], sent = None\<rparr>"

text \<open>A network on which every request fails.\<close>

definition unreachable :: network where
  "unreachable hs r = Inl (TransportError ''fetch failed'')"

text \<open>
  A request signed for the body \<open>for_body\<close> and delivered with the body \<open>raw\<close>, both as
  raw bytes, with its method.
\<close>

definition signed_request :: "string \<Rightarrow> string \<Rightarrow> byte list \<Rightarrow> byte list \<Rightarrow> VercelRequest" where
  "signed_request m secret for_body raw =
     \<lparr>http_method = m,
      headers =
        [''x-hub-signature-256'' \<mapsto>
           HStr (''sha256='' @ createHmac_sha256_hex secret (toString_utf8 for_body))],
      chunks = [BufferChunk raw],
      stream_error = None,
      body = JUndefined\<rparr>"

section \<open>Facts about the digest and the encoding\<close>

lemma length_state_bytes: "length (state_bytes st) = 32"
proof -
  obtain a b c d e f g h where "st = (a, b, c, d, e, f, g, h)"
    by (metis prod_cases4)
  then show ?thesis by simp
qed

lemma length_sha256: "length (sha256 m) = 32"
  by (simp add: sha256_def Let_def length_state_bytes)

lemma length_hex_of_bytes: "length (hex_of_bytes bs) = 2 * length bs"
  by (induction bs) (simp_all add: hex_of_bytes_def)

lemma length_createHmac_sha256_hex: "length (createHmac_sha256_hex s d) = 64"
  by (simp add: createHmac_sha256_hex_def hmac_sha256_def Let_def length_hex_of_bytes length_sha256)

lemma hex_digit_ascii: "(of_char (hex_digit n) :: nat) < 128"
proof -
  have "n mod 16 < length ''0123456789abcdef''" by simp
  then have "hex_digit n \<in> set ''0123456789abcdef''"
    unfolding hex_digit_def by (rule nth_mem)
  then show ?thesis by auto
qed

lemma hex_of_bytes_ascii: "c \<in> set (hex_of_bytes bs) \<Longrightarrow> (of_char c :: nat) < 128"
  by (induction bs) (auto simp: hex_of_bytes_def hex_digit_ascii)

lemma utf8_bytes_char:
  "utf8_bytes (of_char c) =
     (if (of_char c :: nat) < 128 then [word_of_nat (of_char c)]
      else [word_of_nat (192 + of_char c div 64), word_of_nat (128 + of_char c mod 64)])"
proof -
  have "(of_char c :: nat) < 256" by simp
  then have "(of_char c :: nat) < 2048" by linarith
  then show ?thesis by (simp add: utf8_bytes_def)
qed

lemma unat_utf8_bytes_char:
  "map unat (utf8_bytes (of_char c)) =
     (if (of_char c :: nat) < 128 then [of_char c]
      else [192 + of_char c div 64, 128 + of_char c mod 64])"
proof -
  have n: "(of_char c :: nat) < 256" by simp
  have "192 + (of_char c :: nat) div 64 < 256" "128 + (of_char c :: nat) mod 64 < 256"
    using n by arith+
  then show ?thesis
    by (simp add: utf8_bytes_char unat_of_nat del: of_nat_add of_nat_numeral)
qed

lemma utf8_bytes_char_prefix_free:
  assumes "utf8_bytes (of_char c) @ xs = utf8_bytes (of_char d) @ ys"
  shows "c = d \<and> xs = ys"
proof -
  let ?n = "of_char c :: nat" and ?m = "of_char d :: nat"
  let ?e = "\<lambda>k::nat. if k < 128 then [k] else [192 + k div 64, 128 + k mod 64]"
  have "map unat (utf8_bytes ?n @ xs) = map unat (utf8_bytes ?m @ ys)"
    using assms by simp
  then have eq: "?e ?n @ map unat xs = ?e ?m @ map unat ys"
    by (simp only: map_append unat_utf8_bytes_char)
  have "?n = ?m"
  proof (cases "?n < 128")
    case True
    note n = this
    show ?thesis
    proof (cases "?m < 128")
      case True
      with n eq show ?thesis by simp
    next
      case False
      with n eq have "?n = 192 + ?m div 64" by simp
      with n show ?thesis by linarith
    qed
  next
    case False
    note n = this
    show ?thesis
    proof (cases "?m < 128")
      case True
      with n eq have "192 + ?n div 64 = ?m" by simp
      with True show ?thesis by linarith
    next
      case False
      with n eq have "?n div 64 = ?m div 64" "?n mod 64 = ?m mod 64" by simp_all
      then show ?thesis by (metis div_mult_mod_eq)
    qed
  qed
  then have "c = d" by simp
  with assms show ?thesis by simp
qed

lemma utf8_bytes_char_nonempty: "utf8_bytes (of_char c) \<noteq> []"
  by (simp add: utf8_bytes_char)

lemma utf8_of_string_Nil [simp]: "utf8_of_string [] = []"
  by (simp add: utf8_of_string_def utf8_encode_def)

lemma utf8_of_string_Cons:
  "utf8_of_string (c # s) = utf8_bytes (of_char c) @ utf8_of_string s"
  by (simp add: utf8_of_string_def utf8_encode_def)

lemma utf8_of_string_inj: "utf8_of_string s = utf8_of_string t \<Longrightarrow> s = t"
proof (induction s arbitrary: t)
  case Nil
  then show ?case
    by (cases t) (simp_all add: utf8_of_string_Cons utf8_bytes_char_nonempty)
next
  case (Cons c s)
  show ?case
  proof (cases t)
    case Nil
    with Cons.prems show ?thesis
      by (simp add: utf8_of_string_Cons utf8_bytes_char_nonempty)
  next
    case (Cons d t')
    with Cons.prems have "c = d \<and> utf8_of_string s = utf8_of_string t'"
      using utf8_bytes_char_prefix_free by (simp add: utf8_of_string_Cons)
    with Cons.IH Cons show ?thesis by simp
  qed
qed


lemma utf8_of_string_eq_iff: "(utf8_of_string s = utf8_of_string t) = (s = t)"
  using utf8_of_string_inj by auto

lemma verifyRequestSignature_iff:
  assumes "GITHUB_WEBHOOK_SECRET e = Some S" and "S \<noteq> []"
    and "http_method request = ''POST'' \<longrightarrow> buffer request = Inr B"
  shows "(verifyRequestSignature e request = Inr ()) =
         (template_header (headers request ''x-hub-signature-256'') =
            ''sha256='' @ createHmac_sha256_hex S
                            (if http_method request = ''POST'' then toString_utf8 B else []))"
  using assms
  by (auto simp: verifyRequestSignature_def Let_def timingSafeEqual_def utf8_of_string_eq_iff)

lemma verifyRequestSignature_no_secret:
  "falsy (GITHUB_WEBHOOK_SECRET e) \<Longrightarrow>
     verifyRequestSignature e request = Inl (Error ''Missing GITHUB_WEBHOOK_SECRET'')"
  by (cases "GITHUB_WEBHOOK_SECRET e") (simp_all add: verifyRequestSignature_def)

lemma length_digest:
  "length (utf8_of_string (''sha256='' @ createHmac_sha256_hex S d)) = 71"
proof -
  have "\<forall>c \<in> set (''sha256='' @ createHmac_sha256_hex S d). (of_char c :: nat) < 128"
    by (auto simp: createHmac_sha256_hex_def dest: hex_of_bytes_ascii)
  moreover have "(\<forall>c \<in> set s. (of_char c :: nat) < 128) \<Longrightarrow> length (utf8_of_string s) = length s" for s
    by (induction s) (simp_all add: utf8_of_string_Cons utf8_bytes_char)
  ultimately have "length (utf8_of_string (''sha256='' @ createHmac_sha256_hex S d)) =
      length (''sha256='' @ createHmac_sha256_hex S d)"
    by blast
  then show ?thesis by (simp add: length_createHmac_sha256_hex)
qed

lemma length_digest_Cons:
  "length (utf8_of_string (CHR ''s'' # CHR ''h'' # CHR ''a'' # CHR ''2'' # CHR ''5'' # CHR ''6''
      # CHR ''='' # createHmac_sha256_hex S d)) = 71"
  using length_digest [of S d] by simp

lemma verifyRequestSignature_length:
  assumes "length (utf8_of_string (template_header (headers request ''x-hub-signature-256''))) \<noteq> 71"
  shows "verifyRequestSignature e request \<noteq> Inr ()"
  using assms
  by (auto simp: verifyRequestSignature_def Let_def length_digest_Cons
           split: option.splits sum.splits if_splits)

lemma verifyRequestSignature_absent:
  assumes "headers request ''x-hub-signature-256'' = None"
  shows "verifyRequestSignature e request \<noteq> Inr ()"
proof -
  have "length (utf8_of_string (template_header (headers request ''x-hub-signature-256''))) = 9"
    using assms by (simp add: utf8_of_string_Cons utf8_bytes_def)
  then show ?thesis using verifyRequestSignature_length [of request e] by simp
qed

text \<open>Well-formed text that is encoded and decoded again is unchanged.\<close>

lemma unat_byte_add:
  assumes "k + n < 256"
  shows "unat (word_of_nat (k + n) :: byte) = k + n"
  using assms by (simp add: unat_of_nat del: of_nat_add of_nat_numeral)

lemma mod_offset:
  fixes a :: nat
  assumes "a < m"
  shows "(m * k + a) mod m = a"
  using assms by simp

lemma split2: "(cp :: nat) = cp div 64 * 64 + cp mod 64"
  by simp

lemma split3: "(cp :: nat) = cp div 4096 * 4096 + cp div 64 mod 64 * 64 + cp mod 64"
proof -
  have "cp div 64 = cp div 64 div 64 * 64 + cp div 64 mod 64" by simp
  moreover have "cp div 64 div 64 = cp div 4096"
    by (simp add: div_mult2_eq [symmetric])
  ultimately have "cp div 64 = cp div 4096 * 64 + cp div 64 mod 64" by simp
  then have "cp div 64 * 64 = cp div 4096 * 4096 + cp div 64 mod 64 * 64"
    by simp
  with split2 [of cp] show ?thesis by simp
qed

lemma split4:
  "(cp :: nat) = cp div 262144 * 262144 + cp div 4096 mod 64 * 4096 + cp div 64 mod 64 * 64
     + cp mod 64"
proof -
  have "cp div 4096 = cp div 4096 div 64 * 64 + cp div 4096 mod 64" by simp
  moreover have "cp div 4096 div 64 = cp div 262144"
    by (simp add: div_mult2_eq [symmetric])
  ultimately have "cp div 4096 = cp div 262144 * 64 + cp div 4096 mod 64" by simp
  then have "cp div 4096 * 4096 = cp div 262144 * 262144 + cp div 4096 mod 64 * 4096"
    by simp
  with split3 [of cp] show ?thesis by simp
qed

lemma decode1:
  assumes "unat b1 < 128"
  shows "toString_utf8 (b1 # bs) = unat b1 # toString_utf8 bs"
  using assms by (simp add: Let_def)

lemma decode2:
  assumes u1: "unat b1 = 192 + a" and a: "2 \<le> a" "a < 32"
    and u2: "unat b2 = 128 + b" and b: "b < 64"
  shows "toString_utf8 (b1 # b2 # bs) = (a * 64 + b) # toString_utf8 bs"
proof -
  have m1: "unat b1 mod 32 = a"
    unfolding u1 using mod_offset [of a 32 6] a by simp
  have m2: "unat b2 mod 64 = b"
    unfolding u2 using mod_offset [of b 64 2] b by simp
  have r1: "\<not> unat b1 < 128" "194 \<le> unat b1" "unat b1 \<le> 223"
    unfolding u1 using a by simp_all
  have r2: "128 \<le> unat b2" "unat b2 \<le> 191"
    unfolding u2 using b by simp_all
  show ?thesis
    using r1 r2 m1 m2 by (simp add: Let_def is_cont_def)
qed

lemma decode3:
  assumes u1: "unat b1 = 224 + a" and a: "a < 16"
    and u2: "unat b2 = 128 + b" and b: "b < 64"
    and u3: "unat b3 = 128 + c" and c: "c < 64"
    and lo: "a = 0 \<longrightarrow> 32 \<le> b" and hi: "a = 13 \<longrightarrow> b < 32"
  shows "toString_utf8 (b1 # b2 # b3 # bs) = (a * 4096 + b * 64 + c) # toString_utf8 bs"
proof -
  have m1: "unat b1 mod 16 = a"
    unfolding u1 using mod_offset [of a 16 14] a by simp
  have m2: "unat b2 mod 64 = b"
    unfolding u2 using mod_offset [of b 64 2] b by simp
  have m3: "unat b3 mod 64 = c"
    unfolding u3 using mod_offset [of c 64 2] c by simp
  have r1: "\<not> unat b1 < 128" "\<not> (194 \<le> unat b1 \<and> unat b1 \<le> 223)"
      "224 \<le> unat b1" "unat b1 \<le> 239"
    unfolding u1 using a by simp_all
  have e0: "(unat b1 = 224) = (a = 0)" and ed: "(unat b1 = 237) = (a = 13)"
    unfolding u1 by simp_all
  have r2: "is_cont (if unat b1 = 224 then 160 else 128) (if unat b1 = 237 then 159 else 191) b2"
    unfolding is_cont_def e0 ed u2 using b lo hi by auto
  have r3: "is_cont 128 191 b3"
    unfolding is_cont_def u3 using c by simp
  show ?thesis
    using r1 r2 r3 m1 m2 m3 by (simp add: Let_def)
qed

lemma decode4:
  assumes u1: "unat b1 = 240 + a" and a: "a \<le> 4"
    and u2: "unat b2 = 128 + b" and b: "b < 64"
    and u3: "unat b3 = 128 + c" and c: "c < 64"
    and u4: "unat b4 = 128 + d" and d: "d < 64"
    and lo: "a = 0 \<longrightarrow> 16 \<le> b" and hi: "a = 4 \<longrightarrow> b < 16"
  shows "toString_utf8 (b1 # b2 # b3 # b4 # bs) =
           (a * 262144 + b * 4096 + c * 64 + d) # toString_utf8 bs"
proof -
  have m1: "unat b1 mod 8 = a"
    unfolding u1 using mod_offset [of a 8 30] a by simp
  have m2: "unat b2 mod 64 = b"
    unfolding u2 using mod_offset [of b 64 2] b by simp
  have m3: "unat b3 mod 64 = c"
    unfolding u3 using mod_offset [of c 64 2] c by simp
  have m4: "unat b4 mod 64 = d"
    unfolding u4 using mod_offset [of d 64 2] d by simp
  have r1: "\<not> unat b1 < 128" "\<not> (194 \<le> unat b1 \<and> unat b1 \<le> 223)"
      "\<not> (224 \<le> unat b1 \<and> unat b1 \<le> 239)" "240 \<le> unat b1" "unat b1 \<le> 244"
    unfolding u1 using a by simp_all
  have f0: "(unat b1 = 240) = (a = 0)" and f4: "(unat b1 = 244) = (a = 4)"
    unfolding u1 by simp_all
  have r2: "is_cont (if unat b1 = 240 then 144 else 128) (if unat b1 = 244 then 143 else 191) b2"
    unfolding is_cont_def f0 f4 u2 using b lo hi by auto
  have r3: "is_cont 128 191 b3"
    unfolding is_cont_def u3 using c by simp
  have r4: "is_cont 128 191 b4"
    unfolding is_cont_def u4 using d by simp
  show ?thesis
    using r1 r2 r3 r4 m1 m2 m3 m4 by (simp add: Let_def)
qed

lemma toString_utf8_bytes:
  assumes "scalar_value cp"
  shows "toString_utf8 (utf8_bytes cp @ bs) = cp # toString_utf8 bs"
proof -
  define c0 where "c0 = cp mod 64"
  define c1 where "c1 = cp div 64 mod 64"
  define c2 where "c2 = cp div 4096 mod 64"
  have d: "c0 < 64" "c1 < 64" "c2 < 64"
    unfolding c0_def c1_def c2_def by simp_all
  consider (one) "cp < 0x80" | (two) "0x80 \<le> cp" "cp < 0x800"
    | (three) "0x800 \<le> cp" "cp < 0x10000" | (four) "0x10000 \<le> cp"
    by linarith
  then show ?thesis
  proof cases
    case one
    then have "unat (word_of_nat cp :: byte) = cp"
      by (simp add: unat_of_nat)
    with one show ?thesis
      using decode1 [of "word_of_nat cp" bs] by (simp add: utf8_bytes_def)
  next
    case two
    define a where "a = cp div 64"
    have eq: "cp = a * 64 + c0"
      unfolding a_def c0_def by simp
    have a: "2 \<le> a" "a < 32"
      using eq d(1) two by linarith+
    have enc: "utf8_bytes cp = [word_of_nat (192 + a), word_of_nat (128 + c0)]"
      using two unfolding a_def c0_def by (simp add: utf8_bytes_def)
    have "toString_utf8 (word_of_nat (192 + a) # word_of_nat (128 + c0) # bs) =
        (a * 64 + c0) # toString_utf8 bs"
      using a d(1) by (intro decode2 unat_byte_add) simp_all
    then show ?thesis
      unfolding enc eq [symmetric] by simp
  next
    case three
    define a where "a = cp div 4096"
    have c1': "c1 = cp div 64 mod 64" by (rule c1_def)
    have eq: "cp = a * 4096 + c1 * 64 + c0"
      unfolding a_def c1_def c0_def by (rule split3)
    have a: "a < 16"
      using eq three by linarith
    from assms three have ns: "cp < 0xD800 \<or> 0xE000 \<le> cp"
      by (simp add: scalar_value_def)
    have lo: "a = 0 \<longrightarrow> 32 \<le> c1"
      using eq d three by linarith
    have hi: "a = 13 \<longrightarrow> c1 < 32"
      using eq d ns by linarith
    have enc: "utf8_bytes cp =
        [word_of_nat (224 + a), word_of_nat (128 + c1), word_of_nat (128 + c0)]"
      using three ns unfolding a_def c1_def c0_def by (auto simp: utf8_bytes_def)
    have "toString_utf8 (word_of_nat (224 + a) # word_of_nat (128 + c1)
            # word_of_nat (128 + c0) # bs) =
        (a * 4096 + c1 * 64 + c0) # toString_utf8 bs"
      using a d lo hi by (intro decode3 unat_byte_add) simp_all
    then show ?thesis
      unfolding enc eq [symmetric] by simp
  next
    case four
    define a where "a = cp div 262144"
    have eq: "cp = a * 262144 + c2 * 4096 + c1 * 64 + c0"
      unfolding a_def c2_def c1_def c0_def by (rule split4)
    from assms have top: "cp < 0x110000"
      by (simp add: scalar_value_def)
    have a: "a \<le> 4"
      using eq top by linarith
    have lo: "a = 0 \<longrightarrow> 16 \<le> c2"
      using eq d four by linarith
    have hi: "a = 4 \<longrightarrow> c2 < 16"
      using eq d top by linarith
    have a8: "a mod 8 = a" using a by simp
    have enc: "utf8_bytes cp =
        [word_of_nat (240 + a), word_of_nat (128 + c2), word_of_nat (128 + c1),
         word_of_nat (128 + c0)]"
      using four a8 unfolding a_def c2_def c1_def c0_def by (simp add: utf8_bytes_def)
    have "toString_utf8 (word_of_nat (240 + a) # word_of_nat (128 + c2)
            # word_of_nat (128 + c1) # word_of_nat (128 + c0) # bs) =
        (a * 262144 + c2 * 4096 + c1 * 64 + c0) # toString_utf8 bs"
      using a d lo hi by (intro decode4 unat_byte_add) simp_all
    then show ?thesis
      unfolding enc eq [symmetric] by simp
  qed
qed

lemma toString_utf8_encode:
  "list_all scalar_value t \<Longrightarrow> toString_utf8 (utf8_encode t) = t"
proof (induction t)
  case Nil
  then show ?case by (simp add: utf8_encode_def)
next
  case (Cons cp t)
  then have "toString_utf8 (utf8_bytes cp @ utf8_encode t) = cp # toString_utf8 (utf8_encode t)"
    by (intro toString_utf8_bytes) simp
  with Cons show ?case by (simp add: utf8_encode_def)
qed

lemma scalar_value_of_char: "list_all scalar_value (map of_char s)"
proof -
  have "scalar_value (of_char c)" for c :: char
  proof -
    have "(of_char c :: nat) < 256" by simp
    then show ?thesis unfolding scalar_value_def by linarith
  qed
  then show ?thesis by (simp add: list_all_iff)
qed

lemma toString_utf8_of_string: "toString_utf8 (utf8_of_string s) = map of_char s"
  unfolding utf8_of_string_def by (rule toString_utf8_encode) (rule scalar_value_of_char)

lemma createHmac_sha256_hex_encoded:
  assumes "list_all scalar_value t"
  shows "''sha256='' @ createHmac_sha256_hex secret (toString_utf8 (utf8_encode t)) =
     github_signature secret (utf8_encode t)"
  using toString_utf8_encode [OF assms]
  by (simp add: createHmac_sha256_hex_def github_signature_def)

lemma createHmac_sha256_hex_text:
  "''sha256='' @ createHmac_sha256_hex secret (toString_utf8 (utf8_of_string s)) =
     github_signature secret (utf8_of_string s)"
  by (simp add: createHmac_sha256_hex_def github_signature_def toString_utf8_of_string
        utf8_of_string_def [symmetric])

lemma verifyRequestSignature_example:
  "verifyRequestSignature example_env (example_request event action) = Inr ()"
proof -
  have "buffer (example_request event action) = Inr (utf8_of_string (example_text action))"
    by (simp add: buffer_def example_request_def)
  then have "http_method (example_request event action) = ''POST'' \<longrightarrow>
      buffer (example_request event action) = Inr (utf8_of_string (example_text action))"
    by simp
  from verifyRequestSignature_iff [OF _ _ this, of example_env "''s3cret''"]
  show ?thesis
    using createHmac_sha256_hex_text [of "''s3cret''" "example_text action"]
    by (simp add: example_env_def example_request_def)
qed

lemma byte_of_utf8_text:
  "map (\<lambda>c. word_of_nat (of_char c) :: byte) (utf8_text t) = utf8_encode t"
proof -
  have "(word_of_nat (of_char (char_of (unat b))) :: byte) = b" for b :: byte
  proof -
    have "unat b < 2 ^ LENGTH(8)" by (rule unsigned_less)
    then have "unat b mod 256 = unat b" by simp
    then show ?thesis by simp
  qed
  then show ?thesis
    by (simp add: utf8_text_def comp_def)
qed

lemma utf8_text_inj:
  assumes "list_all scalar_value s" and "list_all scalar_value t"
    and "utf8_text s = utf8_text t"
  shows "s = t"
proof -
  from assms(3) have "utf8_encode s = utf8_encode t"
    using byte_of_utf8_text [of s] byte_of_utf8_text [of t] by simp
  then have "toString_utf8 (utf8_encode s) = toString_utf8 (utf8_encode t)" by simp
  then show ?thesis
    using toString_utf8_encode [OF assms(1)] toString_utf8_encode [OF assms(2)] by simp
qed

lemma utf8_latin1_ascii:
  assumes "list_all (\<lambda>c. (of_char c :: nat) < 128) s"
  shows "utf8_latin1 s = s"
  using assms
proof (induction s)
  case Nil
  then show ?case by (simp add: utf8_latin1_def utf8_text_def utf8_encode_def)
next
  case (Cons c s)
  then have c: "(of_char c :: nat) < 128" and s: "utf8_latin1 s = s" by simp_all
  have "utf8_latin1 (c # s) = map (\<lambda>b. char_of (unat b)) (utf8_bytes (of_char c)) @ utf8_latin1 s"
    by (simp add: utf8_latin1_def utf8_text_def utf8_encode_def)
  also have "map (\<lambda>b. char_of (unat b)) (utf8_bytes (of_char c)) =
      map char_of (map unat (utf8_bytes (of_char c)))"
    by simp
  also have "\<dots> = [c]"
    unfolding unat_utf8_bytes_char using c by simp
  finally show ?case using s by simp
qed


section \<open>Signature verification (claim C2)\<close>

lemma signed_request_verified:
  assumes "m = ''POST'' \<longrightarrow> toString_utf8 raw = toString_utf8 for_body"
    and "m \<noteq> ''POST'' \<longrightarrow> for_body = []"
    and "secret \<noteq> []"
  shows "verifyRequestSignature (e\<lparr>GITHUB_WEBHOOK_SECRET := Some secret\<rparr>)
           (signed_request m secret for_body raw) = Inr ()"
proof -
  have "http_method (signed_request m secret for_body raw) = ''POST'' \<longrightarrow>
      buffer (signed_request m secret for_body raw) = Inr raw"
    by (simp add: buffer_def signed_request_def)
  from verifyRequestSignature_iff [OF _ assms(3) this, of "e\<lparr>GITHUB_WEBHOOK_SECRET := Some secret\<rparr>"]
  show ?thesis using assms(1,2) by (auto simp: signed_request_def)
qed

lemma example_env_secret: "example_env\<lparr>GITHUB_WEBHOOK_SECRET := Some ''s3cret''\<rparr> = example_env"
  by (simp add: example_env_def)

text \<open>
  Claim C2, as stated, fails. A \<^verbatim>\<open>POST\<close> whose body is the byte \<^verbatim>\<open>0xFF\<close>, with the signature the
  handler computes for it, is accepted, and so is the same request with the body byte
  changed to \<^verbatim>\<open>0xFE\<close>: both bodies decode to U+FFFD. A \<^verbatim>\<open>GET\<close> signed for the empty body is
  accepted with the body \<^verbatim>\<open>a\<close> and with the body \<^verbatim>\<open>b\<close>: the body of a request that is not a
  \<^verbatim>\<open>POST\<close> is never read. So a changed body byte does not always make verification fail.
\<close>

theorem mutated_body_still_verified:
  "verifyRequestSignature example_env (signed_request ''POST'' ''s3cret'' [0xFF] [0xFF]) = Inr ()
   \<and> verifyRequestSignature example_env (signed_request ''POST'' ''s3cret'' [0xFF] [0xFE]) = Inr ()
   \<and> verifyRequestSignature example_env (signed_request ''GET'' ''s3cret'' [] [0x61]) = Inr ()
   \<and> verifyRequestSignature example_env (signed_request ''GET'' ''s3cret'' [] [0x62]) = Inr ()"
proof -
  have "toString_utf8 [0xFE] = toString_utf8 [0xFF]"
    by (simp add: Let_def)
  then show ?thesis
    using signed_request_verified [of "''POST''" "[0xFF]" "[0xFF]" "''s3cret''" example_env]
      signed_request_verified [of "''POST''" "[0xFE]" "[0xFF]" "''s3cret''" example_env]
      signed_request_verified [of "''GET''" "[0x61]" "[]" "''s3cret''" example_env]
      signed_request_verified [of "''GET''" "[0x62]" "[]" "''s3cret''" example_env]
    by (simp add: example_env_secret)
qed

text \<open>
  Claim C2, amended. With a configured (non-empty) secret \<open>S\<close>, verification succeeds
  exactly when the signature header, printed as a string, is \<^verbatim>\<open>sha256=\<close> followed by the
  hexadecimal HMAC-SHA256 under \<open>S\<close> of the text \<open>T\<close>: the UTF-8 decoding of the body for a
  \<^verbatim>\<open>POST\<close>, the empty string for any other method. Hence a header made for a secret \<open>S'\<close>
  and a text \<open>T'\<close> is accepted exactly when the two digests are equal; and for a body that
  is well-formed UTF-8 (the encoding of scalar values), the accepted header is the
  signature over its bytes.
\<close>

theorem signature_verified_iff_digest:
  assumes "GITHUB_WEBHOOK_SECRET e = Some S" and "S \<noteq> []"
    and "http_method request = ''POST'' \<longrightarrow> buffer request = Inr B"
    and "T = (if http_method request = ''POST'' then toString_utf8 B else [])"
  shows "((verifyRequestSignature e request = Inr ()) =
           (template_header (headers request ''x-hub-signature-256'') =
              ''sha256='' @ createHmac_sha256_hex S T))
         \<and> (headers request ''x-hub-signature-256'' =
               Some (HStr (''sha256='' @ createHmac_sha256_hex S' T')) \<longrightarrow>
             (verifyRequestSignature e request = Inr ()) =
               (createHmac_sha256_hex S' T' = createHmac_sha256_hex S T))
         \<and> (\<forall>t. list_all scalar_value t \<and> B = utf8_encode t \<longrightarrow>
               ''sha256='' @ createHmac_sha256_hex S (toString_utf8 B) = github_signature S B)"
proof -
  have iff: "(verifyRequestSignature e request = Inr ()) =
           (template_header (headers request ''x-hub-signature-256'') =
              ''sha256='' @ createHmac_sha256_hex S T)"
    using verifyRequestSignature_iff [OF assms(1-3)] assms(4) by simp
  have other: "headers request ''x-hub-signature-256'' =
               Some (HStr (''sha256='' @ createHmac_sha256_hex S' T')) \<longrightarrow>
             (verifyRequestSignature e request = Inr ()) =
               (createHmac_sha256_hex S' T' = createHmac_sha256_hex S T)"
    unfolding iff by auto
  have raw: "\<forall>t. list_all scalar_value t \<and> B = utf8_encode t \<longrightarrow>
               ''sha256='' @ createHmac_sha256_hex S (toString_utf8 B) = github_signature S B"
    using createHmac_sha256_hex_encoded by blast
  from iff other raw show ?thesis by blast
qed

text \<open>The amended claim C2 at the example delivery.\<close>

theorem signature_verified_iff_digest_witness:
  "GITHUB_WEBHOOK_SECRET example_env = Some ''s3cret''
   \<and> http_method (example_request ''pull_request'' ''opened'') = ''POST''
   \<and> buffer (example_request ''pull_request'' ''opened'')
       = Inr (utf8_of_string (example_text ''opened''))
   \<and> headers (example_request ''pull_request'' ''opened'') ''x-hub-signature-256''
       = Some (HStr (''sha256='' @ createHmac_sha256_hex ''s3cret''
                        (toString_utf8 (utf8_of_string (example_text ''opened'')))))
   \<and> verifyRequestSignature example_env (example_request ''pull_request'' ''opened'') = Inr ()
   \<and> list_all scalar_value (map of_char (example_text ''opened''))
   \<and> ''sha256='' @ createHmac_sha256_hex ''s3cret''
                      (toString_utf8 (utf8_of_string (example_text ''opened'')))
       = github_signature ''s3cret'' (utf8_of_string (example_text ''opened''))"
proof -
  let ?r = "example_request ''pull_request'' ''opened''"
  let ?B = "utf8_of_string (example_text ''opened'')"
  have 1: "GITHUB_WEBHOOK_SECRET example_env = Some ''s3cret''"
    by (simp add: example_env_def)
  have 2: "http_method ?r = ''POST''"
    by (simp add: example_request_def)
  have 3: "buffer ?r = Inr ?B"
    by (simp add: example_request_def buffer_def)
  have 4: "headers ?r ''x-hub-signature-256''
       = Some (HStr (''sha256='' @ createHmac_sha256_hex ''s3cret'' (toString_utf8 ?B)))"
    unfolding createHmac_sha256_hex_text by (simp add: example_request_def)
  have 5: "''s3cret'' \<noteq> []" by simp
  from 2 3 have 6: "http_method ?r = ''POST'' \<longrightarrow> buffer ?r = Inr ?B" by simp
  have 7: "toString_utf8 ?B = (if http_method ?r = ''POST'' then toString_utf8 ?B else [])"
    using 2 by simp
  have 8: "list_all scalar_value (map of_char (example_text ''opened''))"
    by (rule scalar_value_of_char)
  have 9: "?B = utf8_encode (map of_char (example_text ''opened''))"
    by (simp add: utf8_of_string_def)
  note t = signature_verified_iff_digest [OF 1 5 6 7, of "''s3cret''" "toString_utf8 ?B"]
  from t 4 have v: "verifyRequestSignature example_env ?r = Inr ()"
    by blast
  from t 8 9 have g: "''sha256='' @ createHmac_sha256_hex ''s3cret'' (toString_utf8 ?B)
       = github_signature ''s3cret'' ?B"
    by blast
  from 1 2 3 4 v 8 g show ?thesis by blast
qed

section \<open>The entry point (claims C1, C3 and C9)\<close>

lemma example_number: "dec_int 42 = ''42''"
  by code_simp

lemma example_alias:
  "utf8_text (alias_of Other_language ''Acme'' ''Widgets'' ''42'') = ''github__acme-widgets-42''"
  by code_simp

lemma example_text_sent: "utf8_latin1 ''Acme/Widgets#42'' = ''Acme/Widgets#42''"
  by code_simp

lemma example_note_sent:
  "utf8_latin1 (''Fix'' @ [CHR 0x0A] @ ''https://github.com/Acme/Widgets/pull/42'')
     = ''Fix'' @ [CHR 0x0A] @ ''https://github.com/Acme/Widgets/pull/42''"
  by code_simp

lemma sent_call: "call net e props w = (r, w') \<Longrightarrow> sent w' = sent w"
  by (auto simp: call_def Let_def console_log_def split: option.splits sum.splits if_splits)

lemma sent_console_log [simp]: "sent (console_log s w) = sent w"
  by (simp add: console_log_def)

lemma sent_hasTask: "hasTask net e a w = (r, w') \<Longrightarrow> sent w' = sent w"
  by (auto simp: hasTask_def split: prod.splits sum.splits if_splits dest: sent_call)

lemma sent_addTodo: "addTodo net e a txt nts prio w = (r, w') \<Longrightarrow> sent w' = sent w"
  by (auto simp: addTodo_def createTask_def split: prod.splits sum.splits if_splits
           dest!: sent_call sent_hasTask)

lemma sent_completeTodo: "completeTodo net e a w = (r, w') \<Longrightarrow> sent w' = sent w"
  by (auto simp: completeTodo_def scoreTask_def split: prod.splits sum.splits if_splits
           dest!: sent_call sent_hasTask)

lemma sent_updateHabiticaTodoFromGitHub:
  "updateHabiticaTodoFromGitHub net e request w = (r, w') \<Longrightarrow> sent w' = sent w"
  by (auto simp: updateHabiticaTodoFromGitHub_def Let_def console_error_def
           split: prod.splits sum.splits if_splits
           dest!: sent_addTodo sent_completeTodo)

lemmas run_simps = updateHabiticaTodoFromGitHub_def taskPriority_def taskAlias_def taskText_def
  taskNote_def addTodo_def completeTodo_def hasTask_def createTask_def scoreTask_def call_def
  fetch_request_of_def console_log_def console_error_def Let_def baseUrl_def
  example_request_def example_payload_def example_env_def example_world_def
  substitution_def example_number example_alias example_text_sent example_note_sent

lemma example_opened_unreachable:
  "updateHabiticaTodoFromGitHub unreachable example_env
     (example_request ''pull_request'' ''opened'') example_world =
   (Inl (TransportError ''fetch failed''),
    \<lparr>fetched =
       [\<lparr>url = ''https://habitica.com/api/v3/tasks/github__acme-widgets-42'',
         fetch_method = ''GET'',
         fetch_headers = [(''x-api-user'', ''user-1''), (''x-api-key'', ''token-1''),
                          (''x-client'', ''user-1-test-github-to-habitica'')],
         fetch_body = None\<rparr>],
     console = [Log ''pull request.opened: github__acme-widgets-42''],
     sent = None\<rparr>)"
  by (simp add: run_simps unreachable_def)

lemma example_opened_tracker:
  "fst (updateHabiticaTodoFromGitHub tracker example_env
     (example_request ''pull_request'' ''opened'') example_world) = Inr ()"
  by (simp add: run_simps tracker_def created_aliases_def)

text \<open>
  Claim C1, as stated, fails. The example delivery passes verification; when the network
  is down, the lookup of the task fails inside the event mapper, the promise of the
  handler rejects with that error, and no status or body has been sent.
\<close>

theorem handler_error_not_absorbed:
  "verifyRequestSignature example_env (example_request ''pull_request'' ''opened'') = Inr ()
   \<and> fst (handler unreachable example_env (example_request ''pull_request'' ''opened'')
            example_world) = Inl (TransportError ''fetch failed'')
   \<and> sent (snd (handler unreachable example_env (example_request ''pull_request'' ''opened'')
                  example_world)) = None"
  by (simp add: handler_def verifyRequestSignature_example example_opened_unreachable)

text \<open>
  Claim C1, amended. For a request that passes verification, the handler answers 200 with
  an empty body when the event mapper completes; when the mapper or the tracker client
  raises an error, the handler rejects with that error and sends nothing (the call of the
  mapper is not inside a \<^verbatim>\<open>try\<close>).
\<close>

theorem handler_after_verification:
  assumes "verifyRequestSignature e request = Inr ()"
  shows "(\<forall>w1. updateHabiticaTodoFromGitHub net e request w = (Inr (), w1) \<longrightarrow>
            handler net e request w = (Inr (), w1\<lparr>sent := Some (200, [])\<rparr>))
         \<and> (\<forall>err w1. updateHabiticaTodoFromGitHub net e request w = (Inl err, w1) \<longrightarrow>
            handler net e request w = (Inl err, w1) \<and> sent w1 = sent w)"
  using assms by (auto simp: handler_def dest: sent_updateHabiticaTodoFromGitHub)

text \<open>
  The amended claim C1 at the example delivery, against a tracker that answers and against
  a network that is down.
\<close>

theorem handler_after_verification_witness:
  "verifyRequestSignature example_env (example_request ''pull_request'' ''opened'') = Inr ()
   \<and> fst (updateHabiticaTodoFromGitHub tracker example_env
            (example_request ''pull_request'' ''opened'') example_world) = Inr ()
   \<and> handler tracker example_env (example_request ''pull_request'' ''opened'') example_world =
       (Inr (), (snd (updateHabiticaTodoFromGitHub tracker example_env
                   (example_request ''pull_request'' ''opened'') example_world))
                \<lparr>sent := Some (200, [])\<rparr>)
   \<and> fst (updateHabiticaTodoFromGitHub unreachable example_env
            (example_request ''pull_request'' ''opened'') example_world)
       = Inl (TransportError ''fetch failed'')
   \<and> handler unreachable example_env (example_request ''pull_request'' ''opened'') example_world =
       (Inl (TransportError ''fetch failed''),
        snd (updateHabiticaTodoFromGitHub unreachable example_env
               (example_request ''pull_request'' ''opened'') example_world))"
proof -
  let ?r = "example_request ''pull_request'' ''opened''"
  have v: "verifyRequestSignature example_env ?r = Inr ()"
    by (rule verifyRequestSignature_example)
  have t: "updateHabiticaTodoFromGitHub tracker example_env ?r example_world =
      (Inr (), snd (updateHabiticaTodoFromGitHub tracker example_env ?r example_world))"
    using example_opened_tracker by (metis prod.collapse)
  have u: "updateHabiticaTodoFromGitHub unreachable example_env ?r example_world =
      (Inl (TransportError ''fetch failed''),
       snd (updateHabiticaTodoFromGitHub unreachable example_env ?r example_world))"
    by (simp add: example_opened_unreachable)
  from handler_after_verification [OF v, of tracker example_world] t
  have 1: "handler tracker example_env ?r example_world =
       (Inr (), (snd (updateHabiticaTodoFromGitHub tracker example_env ?r example_world))
                \<lparr>sent := Some (200, [])\<rparr>)"
    by blast
  from handler_after_verification [OF v, of unreachable example_world] u
  have 2: "handler unreachable example_env ?r example_world =
       (Inl (TransportError ''fetch failed''),
        snd (updateHabiticaTodoFromGitHub unreachable example_env ?r example_world))"
    by blast
  have 3: "fst (updateHabiticaTodoFromGitHub unreachable example_env ?r example_world)
       = Inl (TransportError ''fetch failed'')"
    by (simp add: example_opened_unreachable)
  from v example_opened_tracker 1 3 2 show ?thesis by blast
qed

text \<open>
  Claim C3. When verification fails, the handler answers 403 with an empty body and
  changes nothing else: no request is sent to the tracker and nothing is printed, so the
  event mapper has not run. Verification fails when the secret is not configured, when
  the signature header is absent, when its length differs from that of the computed
  digest, and when it differs from the computed digest.
\<close>

theorem rejected_without_downstream:
  "(verifyRequestSignature e request \<noteq> Inr () \<longrightarrow>
      handler net e request w = (Inr (), w\<lparr>sent := Some (403, [])\<rparr>))
   \<and> (falsy (GITHUB_WEBHOOK_SECRET e) \<longrightarrow> verifyRequestSignature e request \<noteq> Inr ())
   \<and> (headers request ''x-hub-signature-256'' = None \<longrightarrow>
        verifyRequestSignature e request \<noteq> Inr ())
   \<and> (length (utf8_of_string (template_header (headers request ''x-hub-signature-256'')))
        \<noteq> length (utf8_of_string (''sha256='' @ createHmac_sha256_hex S T)) \<longrightarrow>
        verifyRequestSignature e request \<noteq> Inr ())
   \<and> (GITHUB_WEBHOOK_SECRET e = Some S \<and> S \<noteq> [] \<and> http_method request = ''POST''
        \<and> buffer request = Inr B
        \<and> template_header (headers request ''x-hub-signature-256'')
            \<noteq> ''sha256='' @ createHmac_sha256_hex S (toString_utf8 B) \<longrightarrow>
        verifyRequestSignature e request \<noteq> Inr ())"
proof -
  have 1: "verifyRequestSignature e request \<noteq> Inr () \<longrightarrow>
      handler net e request w = (Inr (), w\<lparr>sent := Some (403, [])\<rparr>)"
    by (cases "verifyRequestSignature e request") (simp_all add: handler_def)
  have 2: "falsy (GITHUB_WEBHOOK_SECRET e) \<longrightarrow> verifyRequestSignature e request \<noteq> Inr ()"
    by (simp add: verifyRequestSignature_no_secret)
  have 3: "headers request ''x-hub-signature-256'' = None \<longrightarrow>
        verifyRequestSignature e request \<noteq> Inr ()"
    using verifyRequestSignature_absent by blast
  have 4: "length (utf8_of_string (template_header (headers request ''x-hub-signature-256'')))
        \<noteq> length (utf8_of_string (''sha256='' @ createHmac_sha256_hex S T)) \<longrightarrow>
        verifyRequestSignature e request \<noteq> Inr ()"
    unfolding length_digest using verifyRequestSignature_length by blast
  have 5: "GITHUB_WEBHOOK_SECRET e = Some S \<and> S \<noteq> [] \<and> http_method request = ''POST''
        \<and> buffer request = Inr B
        \<and> template_header (headers request ''x-hub-signature-256'')
            \<noteq> ''sha256='' @ createHmac_sha256_hex S (toString_utf8 B) \<longrightarrow>
        verifyRequestSignature e request \<noteq> Inr ()"
    using verifyRequestSignature_iff [of e S request B] by auto
  from 1 2 3 4 5 show ?thesis by blast
qed

text \<open>
  Claim C3 at the example delivery, once without a configured secret and once without
  the signature header.
\<close>

theorem rejected_without_downstream_witness:
  "falsy (GITHUB_WEBHOOK_SECRET (example_env\<lparr>GITHUB_WEBHOOK_SECRET := None\<rparr>))
   \<and> verifyRequestSignature (example_env\<lparr>GITHUB_WEBHOOK_SECRET := None\<rparr>)
         (example_request ''pull_request'' ''opened'') \<noteq> Inr ()
   \<and> handler tracker (example_env\<lparr>GITHUB_WEBHOOK_SECRET := None\<rparr>)
         (example_request ''pull_request'' ''opened'') example_world
       = (Inr (), example_world\<lparr>sent := Some (403, [])\<rparr>)
   \<and> headers ((example_request ''pull_request'' ''opened'')\<lparr>headers := Map.empty\<rparr>)
         ''x-hub-signature-256'' = None
   \<and> length (utf8_of_string ''undefined'')
       \<noteq> length (utf8_of_string (''sha256='' @ createHmac_sha256_hex ''s3cret'' []))
   \<and> template_header
         (headers ((example_request ''pull_request'' ''opened'')\<lparr>headers := Map.empty\<rparr>)
            ''x-hub-signature-256'')
       \<noteq> ''sha256='' @ createHmac_sha256_hex ''s3cret''
                          (toString_utf8 (utf8_of_string (example_text ''opened'')))
   \<and> verifyRequestSignature example_env
         ((example_request ''pull_request'' ''opened'')\<lparr>headers := Map.empty\<rparr>) \<noteq> Inr ()
   \<and> handler tracker example_env
         ((example_request ''pull_request'' ''opened'')\<lparr>headers := Map.empty\<rparr>) example_world
       = (Inr (), example_world\<lparr>sent := Some (403, [])\<rparr>)"
proof -
  let ?e = "example_env\<lparr>GITHUB_WEBHOOK_SECRET := None\<rparr>"
  let ?r = "example_request ''pull_request'' ''opened''"
  let ?u = "?r\<lparr>headers := Map.empty\<rparr>"
  have f: "falsy (GITHUB_WEBHOOK_SECRET ?e)" by simp
  note a = rejected_without_downstream [of ?e ?r tracker example_world "''s3cret''" "[]" "[]"]
  note b = rejected_without_downstream [of example_env ?u tracker example_world "''s3cret''" "[]"
      "utf8_of_string (example_text ''opened'')"]
  have h: "headers ?u ''x-hub-signature-256'' = None" by simp
  have l: "length (utf8_of_string ''undefined'')
       \<noteq> length (utf8_of_string (''sha256='' @ createHmac_sha256_hex ''s3cret'' []))"
    unfolding length_digest by (simp add: utf8_of_string_Cons utf8_bytes_def)
  have d: "template_header (headers ?u ''x-hub-signature-256'')
       \<noteq> ''sha256='' @ createHmac_sha256_hex ''s3cret''
                          (toString_utf8 (utf8_of_string (example_text ''opened'')))"
    by simp
  from a f have 1: "verifyRequestSignature ?e ?r \<noteq> Inr ()" by blast
  with a have 2: "handler tracker ?e ?r example_world
       = (Inr (), example_world\<lparr>sent := Some (403, [])\<rparr>)" by blast
  from b h have 3: "verifyRequestSignature example_env ?u \<noteq> Inr ()" by blast
  with b have 4: "handler tracker example_env ?u example_world
       = (Inr (), example_world\<lparr>sent := Some (403, [])\<rparr>)" by blast
  from f 1 2 h l d 3 4 show ?thesis by blast
qed

lemma verifyRequestSignature_body:
  "verifyRequestSignature e (request\<lparr>body := b\<rparr>) = verifyRequestSignature e request"
proof -
  have "buffer (request\<lparr>body := b\<rparr>) = buffer request"
    by (simp add: buffer_def split: option.splits)
  then show ?thesis
    by (simp add: verifyRequestSignature_def cong: option.case_cong if_cong)
qed

text \<open>
  Claim C9. A verified request whose \<^verbatim>\<open>x-github-event\<close> header is not \<^verbatim>\<open>pull_request\<close> is
  answered 200 with an empty body; one line is printed and no request is sent to the
  tracker. The outcome is the same for every parsed body, also for \<^verbatim>\<open>undefined\<close>, on which
  reading any field would throw: no field of the payload is read.
\<close>

theorem other_event_no_tracker_call:
  assumes "verifyRequestSignature e request = Inr ()"
    and "headers request ''x-github-event'' \<noteq> Some (HStr ''pull_request'')"
  shows "handler net e request w =
           (Inr (), (console_error ''Not a pull request event'' w)\<lparr>sent := Some (200, [])\<rparr>)
         \<and> fetched (snd (handler net e request w)) = fetched w
         \<and> sent (snd (handler net e request w)) = Some (200, [])
         \<and> handler net e (request\<lparr>body := b\<rparr>) w = handler net e request w"
  using assms
  by (simp add: handler_def updateHabiticaTodoFromGitHub_def verifyRequestSignature_body
        console_error_def)

text \<open>
  Claim C9 at a verified \<^verbatim>\<open>issue_comment\<close> delivery.
\<close>

theorem other_event_no_tracker_call_witness:
  "verifyRequestSignature example_env (example_request ''issue_comment'' ''created'') = Inr ()
   \<and> headers (example_request ''issue_comment'' ''created'') ''x-github-event''
       \<noteq> Some (HStr ''pull_request'')
   \<and> handler tracker example_env (example_request ''issue_comment'' ''created'') example_world =
       (Inr (), \<lparr>fetched = [], console = [ErrorLog ''Not a pull request event''],
                 sent = Some (200, [])\<rparr>)
   \<and> handler tracker example_env
         ((example_request ''issue_comment'' ''created'')\<lparr>body := JUndefined\<rparr>) example_world =
       handler tracker example_env (example_request ''issue_comment'' ''created'') example_world"
proof -
  let ?r = "example_request ''issue_comment'' ''created''"
  have v: "verifyRequestSignature example_env ?r = Inr ()"
    by (rule verifyRequestSignature_example)
  have h: "headers ?r ''x-github-event'' \<noteq> Some (HStr ''pull_request'')"
    by (simp add: example_request_def)
  from other_event_no_tracker_call [OF v h, of tracker example_world JUndefined] v h
  show ?thesis by (simp add: console_error_def example_world_def)
qed

section \<open>The tracker client and the upsert (claims C4, C5, C6 and C8)\<close>

lemma request_summary_of [simp]:
  "request_summary (fetch_request_of u t props) =
     (call_method props, baseUrl @ path props, payload props)"
  by (simp add: request_summary_def fetch_request_of_def Let_def)

lemma fetched_console_log [simp]: "fetched (console_log s w) = fetched w"
  by (simp add: console_log_def)

lemma call_Inr:
  assumes "call net e props w = (Inr res, w1)"
  shows "\<exists>u t. HABITICA_USER_ID e = Some u \<and> u \<noteq> [] \<and> HABITICA_API_TOKEN e = Some t \<and> t \<noteq> []
           \<and> net (fetched w) (fetch_request_of u t props) = Inr res
           \<and> (\<exists>txt. res_text res = Inr txt)
           \<and> fetched w1 = fetched w @ [fetch_request_of u t props]"
  using assms
  by (auto simp: call_def Let_def split: option.splits sum.splits if_splits)

lemma call_configured:
  assumes "HABITICA_USER_ID e = Some u" and "u \<noteq> []"
    and "HABITICA_API_TOKEN e = Some t" and "t \<noteq> []"
  shows "fetched (snd (call net e props w)) = fetched w @ [fetch_request_of u t props]"
  using assms
  by (auto simp: call_def Let_def split: option.splits sum.splits if_splits)

lemma call_fst_cong:
  "fetched w = fetched w' \<Longrightarrow> fst (call net e props w) = fst (call net e props w')"
  by (auto simp: call_def Let_def split: option.splits sum.splits if_splits)

lemma hasTask_fst_cong:
  assumes "fetched w = fetched w'"
  shows "fst (hasTask net e a w) = fst (hasTask net e a w')"
  using call_fst_cong [OF assms, of net e
      "\<lparr>call_method = ''GET'', path = ''tasks/'' @ a, payload = None, call_headers = []\<rparr>"]
  by (auto simp: hasTask_def split: prod.splits sum.splits)

lemma hasTask_Inr:
  assumes "hasTask net e a w = (Inr b, w1)"
  shows "\<exists>u t res. HABITICA_USER_ID e = Some u \<and> u \<noteq> [] \<and> HABITICA_API_TOKEN e = Some t \<and> t \<noteq> []
           \<and> net (fetched w) (fetch_request_of u t
                 \<lparr>call_method = ''GET'', path = ''tasks/'' @ a, payload = None, call_headers = []\<rparr>)
               = Inr res
           \<and> status res = (if b then 200 else 404)
           \<and> fetched w1 = fetched w @ [fetch_request_of u t
                 \<lparr>call_method = ''GET'', path = ''tasks/'' @ a, payload = None, call_headers = []\<rparr>]"
  using assms
  by (auto simp: hasTask_def split: prod.splits sum.splits if_splits dest!: call_Inr)

lemma addTodo_exists:
  assumes "fst (hasTask net e a w) = Inr True"
  shows "fst (addTodo net e a txt nts prio w) = Inr None
         \<and> map request_summary (fetched (snd (addTodo net e a txt nts prio w))) =
             map request_summary (fetched w) @ [(''GET'', baseUrl @ ''tasks/'' @ a, None)]"
proof -
  obtain w1 where h: "hasTask net e a w = (Inr True, w1)"
    using assms by (cases "hasTask net e a w") simp
  from hasTask_Inr [OF h] show ?thesis
    using h by (auto simp: addTodo_def)
qed

lemma addTodo_absent:
  assumes "fst (hasTask net e a w) = Inr False"
  shows "map request_summary (fetched (snd (addTodo net e a txt nts prio w))) =
           map request_summary (fetched w) @
             [(''GET'', baseUrl @ ''tasks/'' @ a, None),
              (''POST'', baseUrl @ ''tasks/user'',
               Some \<lparr>task_alias = a, task_type = ''todo'', task_text = txt, task_notes = nts,
                     priority = Some (case prio of None \<Rightarrow> Easy | Some p \<Rightarrow> p)\<rparr>)]"
proof -
  obtain w1 where h: "hasTask net e a w = (Inr False, w1)"
    using assms by (cases "hasTask net e a w") simp
  from hasTask_Inr [OF h] obtain u t where c: "HABITICA_USER_ID e = Some u" "u \<noteq> []"
      "HABITICA_API_TOKEN e = Some t" "t \<noteq> []"
    and f: "fetched w1 = fetched w @ [fetch_request_of u t
                 \<lparr>call_method = ''GET'', path = ''tasks/'' @ a, payload = None, call_headers = []\<rparr>]"
    by blast
  let ?w2 = "console_log (''Creating task: '' @ a) w1"
  let ?props = "\<lparr>call_method = ''POST'', path = ''tasks/user'',
        payload = Some \<lparr>task_alias = a, task_type = ''todo'', task_text = txt, task_notes = nts,
                     priority = Some (case prio of None \<Rightarrow> Easy | Some p \<Rightarrow> p)\<rparr>,
        call_headers = []\<rparr>"
  have "fetched (snd (call net e ?props ?w2)) = fetched ?w2 @ [fetch_request_of u t ?props]"
    by (rule call_configured [OF c])
  then have "fetched (snd (addTodo net e a txt nts prio w)) =
      fetched w1 @ [fetch_request_of u t ?props]"
    using h by (auto simp: addTodo_def createTask_def split: prod.splits sum.splits)
  then show ?thesis using f by simp
qed

lemma completeTodo_absent:
  assumes "fst (hasTask net e a w) = Inr False"
  shows "fst (completeTodo net e a w) = Inr None
         \<and> map request_summary (fetched (snd (completeTodo net e a w))) =
             map request_summary (fetched w) @ [(''GET'', baseUrl @ ''tasks/'' @ a, None)]"
proof -
  obtain w1 where h: "hasTask net e a w = (Inr False, w1)"
    using assms by (cases "hasTask net e a w") simp
  from hasTask_Inr [OF h] show ?thesis
    using h by (auto simp: completeTodo_def)
qed

lemma completeTodo_exists:
  assumes "fst (hasTask net e a w) = Inr True"
  shows "map request_summary (fetched (snd (completeTodo net e a w))) =
           map request_summary (fetched w) @
             [(''GET'', baseUrl @ ''tasks/'' @ a, None),
              (''POST'', baseUrl @ ''tasks/'' @ a @ ''/score/up'', None)]"
proof -
  obtain w1 where h: "hasTask net e a w = (Inr True, w1)"
    using assms by (cases "hasTask net e a w") simp
  from hasTask_Inr [OF h] obtain u t where c: "HABITICA_USER_ID e = Some u" "u \<noteq> []"
      "HABITICA_API_TOKEN e = Some t" "t \<noteq> []"
    and f: "fetched w1 = fetched w @ [fetch_request_of u t
                 \<lparr>call_method = ''GET'', path = ''tasks/'' @ a, payload = None, call_headers = []\<rparr>]"
    by blast
  let ?w2 = "console_log (''Completing task: '' @ a) w1"
  let ?props = "\<lparr>call_method = ''POST'', path = ''tasks/'' @ a @ ''/score/'' @ ''up'',
        payload = None, call_headers = []\<rparr>"
  have "fetched (snd (call net e ?props ?w2)) = fetched ?w2 @ [fetch_request_of u t ?props]"
    by (rule call_configured [OF c])
  then have "fetched (snd (completeTodo net e a w)) =
      fetched w1 @ [fetch_request_of u t ?props]"
    using h by (auto simp: completeTodo_def scoreTask_def split: prod.splits sum.splits)
  then show ?thesis using f by simp
qed

text \<open>
  Claim C6. With both credentials configured, when the lookup of an alias is answered
  with a readable response, the existence check returns false exactly when the status is
  404 and true exactly when it is 200; for any other status it raises an error that names
  the URL and returns neither.
\<close>

theorem hasTask_by_status:
  assumes "HABITICA_USER_ID e = Some u" and "u \<noteq> []"
    and "HABITICA_API_TOKEN e = Some t" and "t \<noteq> []"
    and "net (fetched w) (fetch_request_of u t
           \<lparr>call_method = ''GET'', path = ''tasks/'' @ a, payload = None, call_headers = []\<rparr>)
         = Inr res"
    and "res_text res = Inr tx"
  shows "((fst (hasTask net e a w) = Inr False) = (status res = 404))
         \<and> ((fst (hasTask net e a w) = Inr True) = (status res = 200))
         \<and> (status res \<noteq> 404 \<and> status res \<noteq> 200 \<longrightarrow>
              fst (hasTask net e a w) = Inl (Error (''Unexpected response from: '' @ res_url res)))"
  using assms by (simp add: hasTask_def call_def Let_def)

lemma handler_fetched:
  assumes "verifyRequestSignature e request = Inr ()"
  shows "fetched (snd (handler net e request w)) =
           fetched (snd (updateHabiticaTodoFromGitHub net e request w))"
  using assms by (auto simp: handler_def split: prod.splits sum.splits)



lemma mapper_closed:
  assumes "headers request ''x-github-event'' = Some (HStr ''pull_request'')"
    and "get_prop (body request) ''action'' = Inr (JStr ''closed'')"
    and "get_path (body request) [''pull_request'', ''user'', ''login''] = Inr author"
    and "get_path (body request) [''repository'', ''owner'', ''login''] = Inr owner"
    and "substitution (body request) [''repository'', ''owner'', ''login''] = Inr owner_login"
    and "substitution (body request) [''repository'', ''name''] = Inr name"
    and "substitution (body request) [''number''] = Inr number"
    and "substitution (body request) [''repository'', ''full_name''] = Inr full_name"
    and "substitution (body request) [''pull_request'', ''title''] = Inr title"
    and "substitution (body request) [''pull_request'', ''html_url''] = Inr html_url"
  shows "fetched (snd (updateHabiticaTodoFromGitHub net e request w)) =
         fetched (snd (completeTodo net e (utf8_text (alias_of (default_locale e) owner_login name number))
                         (console_log (''pull request.closed: ''
                            @ utf8_text (alias_of (default_locale e) owner_login name number)) w)))"
  using assms
  by (simp add: updateHabiticaTodoFromGitHub_def taskPriority_def taskAlias_def taskText_def
        taskNote_def Let_def split: prod.splits sum.splits)


lemma hasTask_tracker:
  assumes "HABITICA_USER_ID e = Some u" and "u \<noteq> []"
    and "HABITICA_API_TOKEN e = Some t" and "t \<noteq> []"
  shows "fst (hasTask tracker e a w) = Inr (a \<in> set (created_aliases (fetched w)))"
  using assms
  by (auto simp: hasTask_def call_def Let_def tracker_def fetch_request_of_def)

lemma created_aliases_append:
  "created_aliases (xs @ ys) = created_aliases xs @ created_aliases ys"
  by (simp add: created_aliases_def)

lemma created_aliases_single:
  "request_summary x = request_summary y \<Longrightarrow> created_aliases [x] = created_aliases [y]"
  by (auto simp: created_aliases_def request_summary_def)

lemma created_aliases_summary:
  "map request_summary xs = map request_summary ys \<Longrightarrow> created_aliases xs = created_aliases ys"
proof (induction xs arbitrary: ys)
  case Nil
  then show ?case by simp
next
  case (Cons x xs)
  then obtain y ys' where ys: "ys = y # ys'" by (cases ys) auto
  with Cons.prems have hd: "request_summary x = request_summary y"
    and tl: "map request_summary xs = map request_summary ys'" by simp_all
  have "created_aliases (x # xs) = created_aliases [x] @ created_aliases xs"
    using created_aliases_append [of "[x]" xs] by simp
  also have "\<dots> = created_aliases [y] @ created_aliases ys'"
    using created_aliases_single [OF hd] Cons.IH [OF tl] by simp
  also have "\<dots> = created_aliases (y # ys')"
    using created_aliases_append [of "[y]" ys'] by simp
  finally show ?case using ys by simp
qed

lemma created_aliases_of_summary:
  assumes "map request_summary ys = map request_summary xs @ ss"
  shows "created_aliases ys = created_aliases xs @
           concat (map (\<lambda>(m, u, b). if m = ''POST'' \<and> u = baseUrl @ ''tasks/user''
                                     then (case b of None \<Rightarrow> [] | Some t \<Rightarrow> [task_alias t])
                                     else []) ss)"
proof -
  define mk :: "string \<times> string \<times> HabiticaAddTaskProps option \<Rightarrow> fetch_request"
    where "mk = (\<lambda>(m, u, b). \<lparr>url = u, fetch_method = m, fetch_headers = [], fetch_body = b\<rparr>)"
  have s: "request_summary (mk x) = x" for x
    by (cases x) (simp add: mk_def request_summary_def)
  have "map request_summary ys = map request_summary (xs @ map mk ss)"
    using assms by (simp add: s comp_def)
  then have "created_aliases ys = created_aliases (xs @ map mk ss)"
    by (rule created_aliases_summary)
  also have "\<dots> = created_aliases xs @ created_aliases (map mk ss)"
    by (rule created_aliases_append)
  also have "created_aliases (map mk ss) =
      concat (map (\<lambda>(m, u, b). if m = ''POST'' \<and> u = baseUrl @ ''tasks/user''
                                     then (case b of None \<Rightarrow> [] | Some t \<Rightarrow> [task_alias t])
                                     else []) ss)"
    by (induction ss) (auto simp: created_aliases_def mk_def)
  finally show ?thesis .
qed


text \<open>
  Claim C5. Take a verified \<^verbatim>\<open>pull_request\<close> delivery with action \<^verbatim>\<open>closed\<close> in which the two
  logins can be read and each of the six substitutions of the three template literals
  gives a string. The first request sent is the lookup of the alias. When the check
  returns false nothing else is sent; when it returns true one score request follows, for
  that alias and direction \<^verbatim>\<open>up\<close>. Against the tracker that holds the tasks created so far,
  an alias that was never created gets no score request.
\<close>

theorem closed_event_score:
  assumes "verifyRequestSignature e request = Inr ()"
    and "headers request ''x-github-event'' = Some (HStr ''pull_request'')"
    and "get_prop (body request) ''action'' = Inr (JStr ''closed'')"
    and "get_path (body request) [''pull_request'', ''user'', ''login''] = Inr author"
    and "get_path (body request) [''repository'', ''owner'', ''login''] = Inr owner"
    and "substitution (body request) [''repository'', ''owner'', ''login''] = Inr owner_login"
    and "substitution (body request) [''repository'', ''name''] = Inr name"
    and "substitution (body request) [''number''] = Inr number"
    and "substitution (body request) [''repository'', ''full_name''] = Inr full_name"
    and "substitution (body request) [''pull_request'', ''title''] = Inr title"
    and "substitution (body request) [''pull_request'', ''html_url''] = Inr html_url"
    and "a = utf8_text (alias_of (default_locale e) owner_login name number)"
  shows "(fst (hasTask net e a w) = Inr False \<longrightarrow>
            map request_summary (fetched (snd (handler net e request w))) =
              map request_summary (fetched w) @ [(''GET'', baseUrl @ ''tasks/'' @ a, None)])
         \<and> (fst (hasTask net e a w) = Inr True \<longrightarrow>
            map request_summary (fetched (snd (handler net e request w))) =
              map request_summary (fetched w) @
                [(''GET'', baseUrl @ ''tasks/'' @ a, None),
                 (''POST'', baseUrl @ ''tasks/'' @ a @ ''/score/up'', None)])
         \<and> (HABITICA_USER_ID e = Some u \<and> u \<noteq> [] \<and> HABITICA_API_TOKEN e = Some t \<and> t \<noteq> []
             \<and> a \<notin> set (created_aliases (fetched w)) \<longrightarrow>
            map request_summary (fetched (snd (handler tracker e request w))) =
              map request_summary (fetched w) @ [(''GET'', baseUrl @ ''tasks/'' @ a, None)])"
proof -
  let ?w = "console_log (''pull request.closed: '' @ a) w"
  have same: "fst (hasTask net e a ?w) = fst (hasTask net e a w)" for net
    by (rule hasTask_fst_cong) simp
  have run: "fetched (snd (handler net e request w)) = fetched (snd (completeTodo net e a ?w))"
    for net
    unfolding handler_fetched [OF assms(1)] mapper_closed [OF assms(2-11)] assms(12)
    by simp
  have absent: "fst (hasTask net e a w) = Inr False \<longrightarrow>
            map request_summary (fetched (snd (handler net e request w))) =
              map request_summary (fetched w) @ [(''GET'', baseUrl @ ''tasks/'' @ a, None)]"
    for net
    unfolding run using completeTodo_absent [of net e a ?w] same [of net] by simp
  have present: "fst (hasTask net e a w) = Inr True \<longrightarrow>
            map request_summary (fetched (snd (handler net e request w))) =
              map request_summary (fetched w) @
                [(''GET'', baseUrl @ ''tasks/'' @ a, None),
                 (''POST'', baseUrl @ ''tasks/'' @ a @ ''/score/up'', None)]"
    unfolding run using completeTodo_exists [of net e a ?w] same [of net] by simp
  have never: "HABITICA_USER_ID e = Some u \<and> u \<noteq> [] \<and> HABITICA_API_TOKEN e = Some t \<and> t \<noteq> []
             \<and> a \<notin> set (created_aliases (fetched w)) \<longrightarrow>
            map request_summary (fetched (snd (handler tracker e request w))) =
              map request_summary (fetched w) @ [(''GET'', baseUrl @ ''tasks/'' @ a, None)]"
    using absent [of tracker] hasTask_tracker [of e u t a w] by simp
  from absent [of net] present never show ?thesis by blast
qed

text \<open>
  Claim C8. Two runs of \<^verbatim>\<open>addTodo\<close> in sequence for one alias, the check of the first run
  returning false and the check of the second returning true, send a lookup, one creation
  and a lookup: exactly one creation, for that alias.
\<close>

theorem opened_twice_creates_once:
  assumes "fst (hasTask net e a w) = Inr False"
    and "addTodo net e a tx nts prio w = (r1, w1)"
    and "fst (hasTask net e a w1) = Inr True"
    and "addTodo net e a tx' nts' prio' w1 = (r2, w2)"
  shows "map request_summary (fetched w2) =
           map request_summary (fetched w) @
             [(''GET'', baseUrl @ ''tasks/'' @ a, None),
              (''POST'', baseUrl @ ''tasks/user'',
               Some \<lparr>task_alias = a, task_type = ''todo'', task_text = tx, task_notes = nts,
                     priority = Some (case prio of None \<Rightarrow> Easy | Some p \<Rightarrow> p)\<rparr>),
              (''GET'', baseUrl @ ''tasks/'' @ a, None)]
         \<and> created_aliases (fetched w2) = created_aliases (fetched w) @ [a]"
proof -
  have 1: "map request_summary (fetched w1) =
           map request_summary (fetched w) @
             [(''GET'', baseUrl @ ''tasks/'' @ a, None),
              (''POST'', baseUrl @ ''tasks/user'',
               Some \<lparr>task_alias = a, task_type = ''todo'', task_text = tx, task_notes = nts,
                     priority = Some (case prio of None \<Rightarrow> Easy | Some p \<Rightarrow> p)\<rparr>)]"
    using addTodo_absent [OF assms(1), of tx nts prio] assms(2) by simp
  have 2: "map request_summary (fetched w2) =
           map request_summary (fetched w1) @ [(''GET'', baseUrl @ ''tasks/'' @ a, None)]"
    using addTodo_exists [OF assms(3), of tx' nts' prio'] assms(4) by simp
  have trace: "map request_summary (fetched w2) =
           map request_summary (fetched w) @
             [(''GET'', baseUrl @ ''tasks/'' @ a, None),
              (''POST'', baseUrl @ ''tasks/user'',
               Some \<lparr>task_alias = a, task_type = ''todo'', task_text = tx, task_notes = nts,
                     priority = Some (case prio of None \<Rightarrow> Easy | Some p \<Rightarrow> p)\<rparr>),
              (''GET'', baseUrl @ ''tasks/'' @ a, None)]"
    unfolding 2 1 by simp
  from created_aliases_of_summary [OF trace]
  have "created_aliases (fetched w2) = created_aliases (fetched w) @ [a]"
    by simp
  with trace show ?thesis by blast
qed

lemma example_fields:
  "headers (example_request ''pull_request'' action) ''x-github-event'' = Some (HStr ''pull_request'')"
  "get_prop (body (example_request ''pull_request'' action)) ''action'' = Inr (JStr action)"
  "get_path (body (example_request ''pull_request'' action)) [''pull_request'', ''user'', ''login'']
     = Inr (JStr ''Acme'')"
  "get_path (body (example_request ''pull_request'' action)) [''repository'', ''owner'', ''login'']
     = Inr (JStr ''Acme'')"
  "substitution (body (example_request ''pull_request'' action)) [''repository'', ''owner'', ''login'']
     = Inr ''Acme''"
  "substitution (body (example_request ''pull_request'' action)) [''repository'', ''name'']
     = Inr ''Widgets''"
  "substitution (body (example_request ''pull_request'' action)) [''number''] = Inr ''42''"
  "substitution (body (example_request ''pull_request'' action)) [''repository'', ''full_name'']
     = Inr ''Acme/Widgets''"
  "substitution (body (example_request ''pull_request'' action)) [''pull_request'', ''title'']
     = Inr ''Fix''"
  "substitution (body (example_request ''pull_request'' action)) [''pull_request'', ''html_url'']
     = Inr ''https://github.com/Acme/Widgets/pull/42''"
  by (simp_all add: example_request_def example_payload_def substitution_def example_number)

lemma example_alias_env:
  "''github__acme-widgets-42'' =
     utf8_text (alias_of (default_locale example_env) ''Acme'' ''Widgets'' ''42'')"
  by (simp add: example_env_def example_alias)

lemma example_credentials:
  "HABITICA_USER_ID example_env = Some ''user-1''" "''user-1'' \<noteq> []"
  "HABITICA_API_TOKEN example_env = Some ''token-1''" "''token-1'' \<noteq> []"
  by (simp_all add: example_env_def)

lemma hasTask_answering:
  "fst (hasTask (answering 404) example_env a w) = Inr False"
  "fst (hasTask (answering 200) example_env a w) = Inr True"
  by (simp_all add: hasTask_def call_def Let_def answering_def example_env_def)

text \<open>
  Claim C6 against trackers that answer 404, 200 and 500.
\<close>

theorem hasTask_by_status_witness:
  "fst (hasTask (answering 404) example_env ''github__acme-widgets-42'' example_world) = Inr False
   \<and> fst (hasTask (answering 200) example_env ''github__acme-widgets-42'' example_world) = Inr True
   \<and> fst (hasTask (answering 500) example_env ''github__acme-widgets-42'' example_world)
       = Inl (Error ''Unexpected response from: https://habitica.com/api/v3/tasks/github__acme-widgets-42'')"
proof -
  let ?a = "''github__acme-widgets-42''"
  let ?req = "fetch_request_of ''user-1'' ''token-1''
      \<lparr>call_method = ''GET'', path = ''tasks/'' @ ?a, payload = None, call_headers = []\<rparr>"
  have n: "answering code (fetched example_world) ?req =
      Inr \<lparr>status = code, res_url = url ?req, res_text = Inr []\<rparr>" for code
    by (simp add: answering_def)
  have t: "((fst (hasTask (answering code) example_env ?a example_world) = Inr False) = (code = 404))
         \<and> ((fst (hasTask (answering code) example_env ?a example_world) = Inr True) = (code = 200))
         \<and> (code \<noteq> 404 \<and> code \<noteq> 200 \<longrightarrow>
              fst (hasTask (answering code) example_env ?a example_world)
              = Inl (Error (''Unexpected response from: '' @ url ?req)))" for code
    using hasTask_by_status [where net = "answering code" and e = example_env
        and w = example_world and a = ?a and u = "''user-1''" and t = "''token-1''"
        and res = "\<lparr>status = code, res_url = url ?req, res_text = Inr []\<rparr>" and tx = "[]",
        OF example_credentials n]
    by simp
  from t [of 404] have 1: "fst (hasTask (answering 404) example_env ?a example_world) = Inr False"
    by simp
  from t [of 200] have 2: "fst (hasTask (answering 200) example_env ?a example_world) = Inr True"
    by simp
  from t [of 500] have 3: "fst (hasTask (answering 500) example_env ?a example_world)
       = Inl (Error ''Unexpected response from: https://habitica.com/api/v3/tasks/github__acme-widgets-42'')"
    by (simp add: fetch_request_of_def baseUrl_def)
  from 1 2 3 show ?thesis by blast
qed



text \<open>
  Claim C5 at the example delivery: against a tracker without the task, one with it, and
  the tracker on which nothing was created.
\<close>

theorem closed_event_score_witness:
  "verifyRequestSignature example_env (example_request ''pull_request'' ''closed'') = Inr ()
   \<and> fst (hasTask (answering 404) example_env ''github__acme-widgets-42'' example_world) = Inr False
   \<and> map request_summary
        (fetched (snd (handler (answering 404) example_env
                         (example_request ''pull_request'' ''closed'') example_world))) =
       [(''GET'', ''https://habitica.com/api/v3/tasks/github__acme-widgets-42'', None)]
   \<and> fst (hasTask (answering 200) example_env ''github__acme-widgets-42'' example_world) = Inr True
   \<and> map request_summary
        (fetched (snd (handler (answering 200) example_env
                         (example_request ''pull_request'' ''closed'') example_world))) =
       [(''GET'', ''https://habitica.com/api/v3/tasks/github__acme-widgets-42'', None),
        (''POST'', ''https://habitica.com/api/v3/tasks/github__acme-widgets-42/score/up'', None)]
   \<and> ''github__acme-widgets-42'' \<notin> set (created_aliases (fetched example_world))
   \<and> map request_summary
        (fetched (snd (handler tracker example_env
                         (example_request ''pull_request'' ''closed'') example_world))) =
       [(''GET'', ''https://habitica.com/api/v3/tasks/github__acme-widgets-42'', None)]"
proof -
  let ?r = "example_request ''pull_request'' ''closed''"
  have v: "verifyRequestSignature example_env ?r = Inr ()"
    by (rule verifyRequestSignature_example)
  have n: "''github__acme-widgets-42'' \<notin> set (created_aliases (fetched example_world))"
    by (simp add: created_aliases_def example_world_def)
  note t = closed_event_score [where e = example_env and request = ?r and w = example_world
      and u = "''user-1''" and t = "''token-1''",
      OF v example_fields [of "''closed''"] example_alias_env]
  from t [of "answering 200"] t [of "answering 404"] v hasTask_answering n example_credentials
  show ?thesis
    by (simp add: example_world_def baseUrl_def)
qed

text \<open>
  Claim C8 against the tracker that holds the tasks created so far, starting with none.
\<close>

theorem opened_twice_creates_once_witness:
  "fst (hasTask tracker example_env ''github__acme-widgets-42'' example_world) = Inr False
   \<and> fst (hasTask tracker example_env ''github__acme-widgets-42''
             (snd (addTodo tracker example_env ''github__acme-widgets-42'' ''Acme/Widgets#42''
                     None (Some Medium) example_world))) = Inr True
   \<and> map request_summary
        (fetched (snd (addTodo tracker example_env ''github__acme-widgets-42'' ''Acme/Widgets#42''
                         None (Some Medium)
                    (snd (addTodo tracker example_env ''github__acme-widgets-42''
                            ''Acme/Widgets#42'' None (Some Medium) example_world))))) =
       [(''GET'', ''https://habitica.com/api/v3/tasks/github__acme-widgets-42'', None),
        (''POST'', ''https://habitica.com/api/v3/tasks/user'',
         Some \<lparr>task_alias = ''github__acme-widgets-42'', task_type = ''todo'',
               task_text = ''Acme/Widgets#42'', task_notes = None, priority = Some Medium\<rparr>),
        (''GET'', ''https://habitica.com/api/v3/tasks/github__acme-widgets-42'', None)]
   \<and> created_aliases
        (fetched (snd (addTodo tracker example_env ''github__acme-widgets-42'' ''Acme/Widgets#42''
                         None (Some Medium)
                    (snd (addTodo tracker example_env ''github__acme-widgets-42''
                            ''Acme/Widgets#42'' None (Some Medium) example_world))))) =
       [''github__acme-widgets-42'']"
proof -
  let ?a = "''github__acme-widgets-42''"
  let ?run = "addTodo tracker example_env ?a ''Acme/Widgets#42'' None (Some Medium)"
  let ?w1 = "snd (?run example_world)"
  let ?w2 = "snd (?run ?w1)"
  have c0: "created_aliases (fetched example_world) = []"
    by (simp add: created_aliases_def example_world_def)
  have h0: "fst (hasTask tracker example_env ?a example_world) = Inr False"
    using hasTask_tracker [OF example_credentials, of ?a example_world] c0 by simp
  have "created_aliases (fetched ?w1) = created_aliases (fetched example_world) @ [?a]"
    using created_aliases_of_summary [OF addTodo_absent [OF h0, of "''Acme/Widgets#42''" None "Some Medium"]]
    by simp
  then have h1: "fst (hasTask tracker example_env ?a ?w1) = Inr True"
    using hasTask_tracker [OF example_credentials, of ?a ?w1] c0 by simp
  have r1: "?run example_world = (fst (?run example_world), ?w1)" by simp
  have r2: "?run ?w1 = (fst (?run ?w1), ?w2)" by simp
  from opened_twice_creates_once [OF h0 r1 h1 r2] h0 h1 c0
  show ?thesis
    by (simp add: example_world_def baseUrl_def)
qed

section \<open>The alias and the payload (claims C7 and C10)\<close>












lemma scalar_value_toLocaleLowerCase: "list_all scalar_value (toLocaleLowerCase loc s)"
proof -
  have "scalar_value (of_char c)" for c :: char
    using scalar_value_of_char [of "[c]"] by simp
  then have "list_all scalar_value (toLocaleLowerCase_char loc c)" for c
    by (simp add: toLocaleLowerCase_char_def scalar_value_def)
  then show ?thesis
    by (induction s) (simp_all add: toLocaleLowerCase_def)
qed

lemma alias_sent_inj:
  assumes "utf8_text (alias_of loc a b c) = utf8_text (alias_of loc a' b' c')"
  shows "alias_of loc a b c = alias_of loc a' b' c'"
  using assms unfolding alias_of_def
  by (intro utf8_text_inj scalar_value_toLocaleLowerCase)

lemma template_examples:
  "template (JArr [JNull, JNum 42, JArr [JStr ''a'', JNum (- 7)], JObj []])
     = Inr '',42,a,-7,[object Object]''"
  "template (JObj [(''toString'', JStr ''x'')])
     = Inl (TypeError ''Cannot convert object to primitive value'')"
  "template (JArr [JNum 1, JObj [(''toString'', JNull)]])
     = Inl (TypeError ''Cannot convert object to primitive value'')"
  by code_simp+


lemma alias_differs_in_azeri_and_lithuanian:
  "alias_of Azeri ''Acme'' ''WIDGETS'' ''42'' \<noteq> alias_of Azeri ''Acme'' ''widgets'' ''42''
   \<and> differ_only_in_case [CHR 0xCC] [CHR 0xEC]
   \<and> alias_of Lithuanian ''Acme'' [CHR 0xCC] ''42''
       = map of_char ''github__acme-'' @ [0x69, 0x307, 0x300] @ map of_char ''-42''
   \<and> alias_of Lithuanian ''Acme'' [CHR 0xEC] ''42''
       = map of_char ''github__acme-'' @ [0xEC] @ map of_char ''-42''"
  by code_simp








lemma template_TypeError:
  "template v = Inl err \<Longrightarrow> \<exists>msg. err = TypeError msg"
  "join_elements vs = Inl err \<Longrightarrow> \<exists>msg. err = TypeError msg"
  by (induction v and vs arbitrary: err and err rule: template_join_elements.induct)
    (auto split: if_splits sum.splits)

lemma get_prop_TypeError: "get_prop v k = Inl err \<Longrightarrow> \<exists>msg. err = TypeError msg"
  by (cases v) auto

lemma get_path_TypeError: "get_path v ks = Inl err \<Longrightarrow> \<exists>msg. err = TypeError msg"
proof (induction ks arbitrary: v)
  case Nil
  then show ?case by simp
next
  case (Cons k ks)
  then show ?case
    by (auto split: sum.splits dest: get_prop_TypeError)
qed

lemma substitution_TypeError: "substitution v ks = Inl err \<Longrightarrow> \<exists>msg. err = TypeError msg"
  unfolding substitution_def
  by (auto split: sum.splits dest: get_path_TypeError template_TypeError(1))

lemma taskPriority_TypeError: "taskPriority p = Inl x \<Longrightarrow> \<exists>msg. x = TypeError msg"
  unfolding taskPriority_def
  by (auto split: sum.splits dest: get_path_TypeError simp del: get_path.simps)

lemma taskAlias_TypeError: "taskAlias loc p = Inl x \<Longrightarrow> \<exists>msg. x = TypeError msg"
  unfolding taskAlias_def
  by (auto split: sum.splits dest: substitution_TypeError)

lemma taskText_TypeError: "taskText p = Inl x \<Longrightarrow> \<exists>msg. x = TypeError msg"
  unfolding taskText_def
  by (auto split: sum.splits dest: substitution_TypeError)

lemma taskNote_TypeError: "taskNote p = Inl x \<Longrightarrow> \<exists>msg. x = TypeError msg"
  unfolding taskNote_def
  by (auto split: sum.splits dest: substitution_TypeError)

lemma field_read_fails:
  assumes "isl (get_path p [''pull_request'', ''user'', ''login''])
      \<or> isl (substitution p [''repository'', ''owner'', ''login''])
      \<or> isl (substitution p [''repository'', ''name''])
      \<or> isl (substitution p [''number''])
      \<or> isl (substitution p [''repository'', ''full_name''])
      \<or> isl (substitution p [''pull_request'', ''title''])
      \<or> isl (substitution p [''pull_request'', ''html_url''])"
  shows "(\<exists>x. taskPriority p = Inl x) \<or> (\<exists>x. taskAlias loc p = Inl x)
      \<or> (\<exists>x. taskText p = Inl x) \<or> (\<exists>x. taskNote p = Inl x)"
proof -
  have 1: "isl (get_path p [''pull_request'', ''user'', ''login'']) \<Longrightarrow> \<exists>x. taskPriority p = Inl x"
    unfolding taskPriority_def by (auto simp: isl_def simp del: get_path.simps)
  have 2: "isl (substitution p [''repository'', ''owner'', ''login'']) \<Longrightarrow> \<exists>x. taskAlias loc p = Inl x"
    unfolding taskAlias_def by (auto simp: isl_def)
  have 3: "isl (substitution p [''repository'', ''name'']) \<Longrightarrow> \<exists>x. taskAlias loc p = Inl x"
    unfolding taskAlias_def by (auto simp: isl_def split: sum.splits)
  have 4: "isl (substitution p [''number'']) \<Longrightarrow> \<exists>x. taskAlias loc p = Inl x"
    unfolding taskAlias_def by (auto simp: isl_def split: sum.splits)
  have 5: "isl (substitution p [''repository'', ''full_name'']) \<Longrightarrow> \<exists>x. taskText p = Inl x"
    unfolding taskText_def by (auto simp: isl_def)
  have 6: "isl (substitution p [''pull_request'', ''title'']) \<Longrightarrow> \<exists>x. taskNote p = Inl x"
    unfolding taskNote_def by (auto simp: isl_def)
  have 7: "isl (substitution p [''pull_request'', ''html_url'']) \<Longrightarrow> \<exists>x. taskNote p = Inl x"
    unfolding taskNote_def by (auto simp: isl_def split: sum.splits)
  from assms 1 2 3 4 5 6 7 show ?thesis by blast
qed

lemma mapper_TypeError:
  assumes "headers request ''x-github-event'' = Some (HStr ''pull_request'')"
    and "(\<exists>x. taskPriority (body request) = Inl x)
      \<or> (\<exists>x. taskAlias (default_locale e) (body request) = Inl x)
      \<or> (\<exists>x. taskText (body request) = Inl x) \<or> (\<exists>x. taskNote (body request) = Inl x)"
  shows "\<exists>msg. updateHabiticaTodoFromGitHub net e request w = (Inl (TypeError msg), w)"
proof -
  let ?p = "body request"
  have "\<exists>x. updateHabiticaTodoFromGitHub net e request w = (Inl x, w)
      \<and> (taskPriority ?p = Inl x \<or> taskAlias (default_locale e) ?p = Inl x \<or> taskText ?p = Inl x
           \<or> taskNote ?p = Inl x)"
    using assms
    by (cases "taskPriority ?p"; cases "taskAlias (default_locale e) ?p"; cases "taskText ?p";
        cases "taskNote ?p")
      (simp_all add: updateHabiticaTodoFromGitHub_def)
  then show ?thesis
    using taskPriority_TypeError taskAlias_TypeError taskText_TypeError taskNote_TypeError
    by blast
qed

lemma mapper_other_action:
  assumes "headers request ''x-github-event'' = Some (HStr ''pull_request'')"
    and "\<not> isl (get_path (body request) [''pull_request'', ''user'', ''login''])"
    and "\<not> isl (substitution (body request) [''repository'', ''owner'', ''login''])"
    and "\<not> isl (substitution (body request) [''repository'', ''name''])"
    and "\<not> isl (substitution (body request) [''number''])"
    and "\<not> isl (substitution (body request) [''repository'', ''full_name''])"
    and "\<not> isl (substitution (body request) [''pull_request'', ''title''])"
    and "\<not> isl (substitution (body request) [''pull_request'', ''html_url''])"
    and "get_prop (body request) ''action'' = Inr action"
    and "\<not> strict_eq action (JStr ''opened'')" and "\<not> strict_eq action (JStr ''closed'')"
  shows "updateHabiticaTodoFromGitHub net e request w = (Inr (), w)"
proof -
  let ?p = "body request"
  have val: "\<exists>y. x = Inr y" if "\<not> isl x" for x :: "error + string"
    using that by (cases x) simp_all
  from val [OF assms(3)] obtain s1
    where s1: "substitution ?p [''repository'', ''owner'', ''login''] = Inr s1" by blast
  from val [OF assms(4)] obtain s2
    where s2: "substitution ?p [''repository'', ''name''] = Inr s2" by blast
  from val [OF assms(5)] obtain s3
    where s3: "substitution ?p [''number''] = Inr s3" by blast
  from val [OF assms(6)] obtain s4
    where s4: "substitution ?p [''repository'', ''full_name''] = Inr s4" by blast
  from val [OF assms(7)] obtain s5
    where s5: "substitution ?p [''pull_request'', ''title''] = Inr s5" by blast
  from val [OF assms(8)] obtain s6
    where s6: "substitution ?p [''pull_request'', ''html_url''] = Inr s6" by blast
  from s1 obtain ow where o: "get_path ?p [''repository'', ''owner'', ''login''] = Inr ow"
    unfolding substitution_def
    by (cases "get_path ?p [''repository'', ''owner'', ''login'']") (simp_all del: get_path.simps)
  from assms(2) obtain au where a: "get_path ?p [''pull_request'', ''user'', ''login''] = Inr au"
    by (cases "get_path ?p [''pull_request'', ''user'', ''login'']") (simp_all del: get_path.simps)
  have 1: "taskPriority ?p = Inr (if strict_eq au ow then Medium else Easy)"
    unfolding taskPriority_def a o by simp
  have 2: "taskAlias (default_locale e) ?p = Inr (alias_of (default_locale e) s1 s2 s3)"
    unfolding taskAlias_def s1 s2 s3 by simp
  have 3: "taskText ?p = Inr (s4 @ ''#'' @ s3)"
    unfolding taskText_def s4 s3 by simp
  have 4: "taskNote ?p = Inr (s5 @ [CHR 0x0A] @ s6)"
    unfolding taskNote_def s5 s6 by simp
  show ?thesis
    using assms(1,9-11) by (simp add: updateHabiticaTodoFromGitHub_def 1 2 3 4)
qed

lemma handler_mapper_error:
  assumes "verifyRequestSignature e request = Inr ()"
    and "updateHabiticaTodoFromGitHub net e request w = (Inl err, w1)"
  shows "handler net e request w = (Inl err, w1)"
  using assms by (simp add: handler_def)

text \<open>
  Claim C10. For a verified \<^verbatim>\<open>pull_request\<close> delivery the seven fields are read, and six of
  them converted to strings, before the action is looked at: when reading the login of the
  author fails, or reading or converting any of the owner login, the repository name, the
  number, the full name, the title and the URL fails, the handler rejects with a
  \<^verbatim>\<open>TypeError\<close> and changes nothing, whatever the action is. In particular a payload
  without the \<^verbatim>\<open>pull_request\<close> or the \<^verbatim>\<open>repository\<close> object raises the error. When all of them
  succeed and the action is neither \<^verbatim>\<open>opened\<close> nor \<^verbatim>\<open>closed\<close>, the handler answers 200 and
  does nothing else.
\<close>

theorem payload_fields_read_before_action:
  assumes "verifyRequestSignature e request = Inr ()"
    and "headers request ''x-github-event'' = Some (HStr ''pull_request'')"
  shows "(isl (get_path (body request) [''pull_request'', ''user'', ''login''])
          \<or> isl (substitution (body request) [''repository'', ''owner'', ''login''])
          \<or> isl (substitution (body request) [''repository'', ''name''])
          \<or> isl (substitution (body request) [''number''])
          \<or> isl (substitution (body request) [''repository'', ''full_name''])
          \<or> isl (substitution (body request) [''pull_request'', ''title''])
          \<or> isl (substitution (body request) [''pull_request'', ''html_url'']) \<longrightarrow>
          (\<exists>msg. handler net e request w = (Inl (TypeError msg), w)))
         \<and> (get_prop (body request) ''pull_request'' = Inr JUndefined
              \<or> get_prop (body request) ''pull_request'' = Inr JNull
              \<or> get_prop (body request) ''repository'' = Inr JUndefined
              \<or> get_prop (body request) ''repository'' = Inr JNull \<longrightarrow>
          (\<exists>msg. handler net e request w = (Inl (TypeError msg), w)))
         \<and> (\<not> isl (get_path (body request) [''pull_request'', ''user'', ''login''])
              \<and> \<not> isl (substitution (body request) [''repository'', ''owner'', ''login''])
              \<and> \<not> isl (substitution (body request) [''repository'', ''name''])
              \<and> \<not> isl (substitution (body request) [''number''])
              \<and> \<not> isl (substitution (body request) [''repository'', ''full_name''])
              \<and> \<not> isl (substitution (body request) [''pull_request'', ''title''])
              \<and> \<not> isl (substitution (body request) [''pull_request'', ''html_url''])
              \<and> get_prop (body request) ''action'' = Inr action
              \<and> \<not> strict_eq action (JStr ''opened'')
              \<and> \<not> strict_eq action (JStr ''closed'') \<longrightarrow>
          handler net e request w = (Inr (), w\<lparr>sent := Some (200, [])\<rparr>))"
proof -
  let ?p = "body request"
  let ?fails = "isl (get_path ?p [''pull_request'', ''user'', ''login''])
          \<or> isl (substitution ?p [''repository'', ''owner'', ''login''])
          \<or> isl (substitution ?p [''repository'', ''name''])
          \<or> isl (substitution ?p [''number''])
          \<or> isl (substitution ?p [''repository'', ''full_name''])
          \<or> isl (substitution ?p [''pull_request'', ''title''])
          \<or> isl (substitution ?p [''pull_request'', ''html_url''])"
  have reads: "?fails \<longrightarrow> (\<exists>msg. handler net e request w = (Inl (TypeError msg), w))"
  proof
    assume ?fails
    then have "\<exists>msg. updateHabiticaTodoFromGitHub net e request w = (Inl (TypeError msg), w)"
      by (intro mapper_TypeError [OF assms(2)] field_read_fails)
    then show "\<exists>msg. handler net e request w = (Inl (TypeError msg), w)"
      using handler_mapper_error [OF assms(1)] by blast
  qed
  have pr: "get_prop ?p ''pull_request'' = Inr JUndefined \<or> get_prop ?p ''pull_request'' = Inr JNull
      \<Longrightarrow> isl (get_path ?p [''pull_request'', ''user'', ''login''])"
    by auto
  have rp: "get_prop ?p ''repository'' = Inr JUndefined \<or> get_prop ?p ''repository'' = Inr JNull
      \<Longrightarrow> isl (substitution ?p [''repository'', ''owner'', ''login''])"
    by (auto simp: substitution_def)
  have other: "handler net e request w = (Inr (), w\<lparr>sent := Some (200, [])\<rparr>)"
    if "\<not> isl (get_path ?p [''pull_request'', ''user'', ''login''])"
      and "\<not> isl (substitution ?p [''repository'', ''owner'', ''login''])"
      and "\<not> isl (substitution ?p [''repository'', ''name''])"
      and "\<not> isl (substitution ?p [''number''])"
      and "\<not> isl (substitution ?p [''repository'', ''full_name''])"
      and "\<not> isl (substitution ?p [''pull_request'', ''title''])"
      and "\<not> isl (substitution ?p [''pull_request'', ''html_url''])"
      and "get_prop ?p ''action'' = Inr action"
      and "\<not> strict_eq action (JStr ''opened'')" and "\<not> strict_eq action (JStr ''closed'')"
    using mapper_other_action [OF assms(2) that, of net e w] assms(1)
    by (simp add: handler_def)
  from reads pr rp other show ?thesis by blast
qed

text \<open>
  Claim C10 at a \<^verbatim>\<open>labeled\<close> delivery: without the two objects the handler rejects; with a
  title that has no conversion to a string, here \<^verbatim>\<open>[{"toString":null}]\<close>, it rejects as
  well; with the full payload it answers 200 and sends nothing to the tracker.
\<close>

theorem payload_fields_read_before_action_witness:
  "verifyRequestSignature example_env
     ((example_request ''pull_request'' ''labeled'')
        \<lparr>body := JObj [(''action'', JStr ''labeled''), (''number'', JNum 42)]\<rparr>) = Inr ()
   \<and> get_prop (JObj [(''action'', JStr ''labeled''), (''number'', JNum 42)]) ''pull_request''
       = Inr JUndefined
   \<and> isl (get_path (JObj [(''action'', JStr ''labeled''), (''number'', JNum 42)])
             [''pull_request'', ''user'', ''login''])
   \<and> handler tracker example_env
         ((example_request ''pull_request'' ''labeled'')
            \<lparr>body := JObj [(''action'', JStr ''labeled''), (''number'', JNum 42)]\<rparr>) example_world
       = (Inl (TypeError (''Cannot read properties of undefined (reading '' @ [CHR 0x27]
                            @ ''user'' @ [CHR 0x27] @ '')'')),
          example_world)
   \<and> isl (substitution
             (example_payload_titled (JArr [JObj [(''toString'', JNull)]]) ''labeled'')
             [''pull_request'', ''title''])
   \<and> handler tracker example_env
         ((example_request ''pull_request'' ''labeled'')
            \<lparr>body := example_payload_titled (JArr [JObj [(''toString'', JNull)]]) ''labeled''\<rparr>)
         example_world
       = (Inl (TypeError ''Cannot convert object to primitive value''), example_world)
   \<and> handler tracker example_env (example_request ''pull_request'' ''labeled'') example_world
       = (Inr (), example_world\<lparr>sent := Some (200, [])\<rparr>)"
proof -
  let ?b = "JObj [(''action'', JStr ''labeled''), (''number'', JNum 42)]"
  let ?r = "(example_request ''pull_request'' ''labeled'')\<lparr>body := ?b\<rparr>"
  let ?c = "example_payload_titled (JArr [JObj [(''toString'', JNull)]]) ''labeled''"
  let ?s = "(example_request ''pull_request'' ''labeled'')\<lparr>body := ?c\<rparr>"
  let ?f = "example_request ''pull_request'' ''labeled''"
  have v: "verifyRequestSignature example_env ?r = Inr ()"
    unfolding verifyRequestSignature_body by (rule verifyRequestSignature_example)
  have h: "headers ?r ''x-github-event'' = Some (HStr ''pull_request'')"
    by (simp add: example_request_def)
  have u: "get_prop ?b ''pull_request'' = Inr JUndefined" by simp
  have i: "isl (get_path ?b [''pull_request'', ''user'', ''login''])" by simp
  from payload_fields_read_before_action [OF v h, of tracker example_world] i
  obtain msg where m: "handler tracker example_env ?r example_world = (Inl (TypeError msg), example_world)"
    by auto
  have "updateHabiticaTodoFromGitHub tracker example_env ?r example_world
      = (Inl (TypeError (''Cannot read properties of undefined (reading '' @ [CHR 0x27]
                            @ ''user'' @ [CHR 0x27] @ '')'')), example_world)"
    by (simp add: updateHabiticaTodoFromGitHub_def taskPriority_def example_request_def)
  from handler_mapper_error [OF v this] m
  have 1: "handler tracker example_env ?r example_world
       = (Inl (TypeError (''Cannot read properties of undefined (reading '' @ [CHR 0x27]
                            @ ''user'' @ [CHR 0x27] @ '')'')),
          example_world)"
    by simp
  have vs: "verifyRequestSignature example_env ?s = Inr ()"
    unfolding verifyRequestSignature_body by (rule verifyRequestSignature_example)
  have hs: "headers ?s ''x-github-event'' = Some (HStr ''pull_request'')"
    by (simp add: example_request_def)
  have j: "isl (substitution ?c [''pull_request'', ''title''])"
    by (simp add: example_payload_titled_def substitution_def)
  from payload_fields_read_before_action [OF vs hs, of tracker example_world] j
  obtain msg' where m': "handler tracker example_env ?s example_world
      = (Inl (TypeError msg'), example_world)"
    by auto
  have "updateHabiticaTodoFromGitHub tracker example_env ?s example_world
      = (Inl (TypeError ''Cannot convert object to primitive value''), example_world)"
    by (simp add: updateHabiticaTodoFromGitHub_def taskPriority_def taskAlias_def taskText_def
          taskNote_def substitution_def example_request_def example_payload_titled_def)
  from handler_mapper_error [OF vs this] m'
  have 2: "handler tracker example_env ?s example_world
      = (Inl (TypeError ''Cannot convert object to primitive value''), example_world)"
    by simp
  have vf: "verifyRequestSignature example_env ?f = Inr ()"
    by (rule verifyRequestSignature_example)
  have ok: "\<not> isl (get_path (body ?f) [''pull_request'', ''user'', ''login''])"
    "\<not> isl (substitution (body ?f) [''repository'', ''owner'', ''login''])"
    "\<not> isl (substitution (body ?f) [''repository'', ''name''])"
    "\<not> isl (substitution (body ?f) [''number''])"
    "\<not> isl (substitution (body ?f) [''repository'', ''full_name''])"
    "\<not> isl (substitution (body ?f) [''pull_request'', ''title''])"
    "\<not> isl (substitution (body ?f) [''pull_request'', ''html_url''])"
    "get_prop (body ?f) ''action'' = Inr (JStr ''labeled'')"
    "\<not> strict_eq (JStr ''labeled'') (JStr ''opened'')"
    "\<not> strict_eq (JStr ''labeled'') (JStr ''closed'')"
    by (simp_all add: example_fields del: get_path.simps)
  from payload_fields_read_before_action [OF vf example_fields(1), of tracker example_world
      "JStr ''labeled''"] ok
  have 3: "handler tracker example_env ?f example_world
       = (Inr (), example_world\<lparr>sent := Some (200, [])\<rparr>)"
    by blast
  from v u i 1 j 2 3 show ?thesis by blast
qed

end
